theory Spec2Isabelle
  imports Complex_Main
begin

section \<open>Errors and results\<close>

text \<open>
  The validators of \<^verbatim>\<open>pyvista/core/validate/array_validators.py\<close> raise two kinds of
  exception, \<^verbatim>\<open>TypeError\<close> and \<^verbatim>\<open>ValueError\<close>, each with a message. A call that
  raises is the value \<open>Inl\<close> of the error; a call that returns is \<open>Inr\<close> of the result.
\<close>

datatype error = TypeError string | ValueError string

fun is_type_error :: "error + 'a \<Rightarrow> bool" where
  "is_type_error (Inl (TypeError m)) = True"
| "is_type_error r = False"

fun is_value_error :: "error + 'a \<Rightarrow> bool" where
  "is_value_error (Inl (ValueError m)) = True"
| "is_value_error r = False"

definition rbind :: "error + 'a \<Rightarrow> ('a \<Rightarrow> error + 'b) \<Rightarrow> error + 'b" where
  "rbind m f = (case m of Inl e \<Rightarrow> Inl e | Inr x \<Rightarrow> f x)"

section \<open>Arrays and Python values\<close>

text \<open>
  An array element is a float64 or int64 value. A finite element is the real number it
  denotes; the two infinities and NaN are elements of their own, and the two zeros of
  float64 are one element (they compare equal). Comparisons and the floor are exact on
  these values; a conversion from \<^verbatim>\<open>int64\<close> to \<^verbatim>\<open>float64\<close> and every arithmetic
  operation on floats round their exact result to the nearest float64
  (\<open>round64\<close> below). The data types are \<^verbatim>\<open>bool\<close>, \<^verbatim>\<open>int64\<close> and \<^verbatim>\<open>float64\<close>;
  complex, string and object arrays, and Python integers outside the \<^verbatim>\<open>int64\<close> range,
  are outside this model. An array holds its shape, its data type and its elements in
  row-major order.
\<close>

datatype elem = Num real | PosInf | NegInf | NaN

datatype dtype = DBool | DInt | DFloat

record ndarray =
  shape :: "nat list"
  dtype :: dtype
  data :: "elem list"

text \<open>
  A Python value that the validators receive or return: a number (a 0-dimensional
  value with the type of a one-element array), a list, a tuple or an array.
\<close>

datatype pyobj =
    PNumber dtype elem
  | PList "pyobj list"
  | PTuple "pyobj list"
  | PArray ndarray

text \<open>A shape argument is a Python \<^verbatim>\<open>int\<close> or a tuple of them.\<close>

datatype shapelike = SInt int | STuple "int list"

text \<open>\<^verbatim>\<open>must_have_shape\<close>: one shape, or a list of acceptable shapes.\<close>

datatype shape_arg = Shape shapelike | Shapes "shapelike list"

text \<open>A dtype-like: a concrete data type or one of numpy's abstract classes.\<close>

datatype dtype_class = CDtype dtype | CInteger | CFloating | CNumber | CGeneric

text \<open>
  \<^verbatim>\<open>must_be_sorted\<close>: a \<^verbatim>\<open>bool\<close>, or a \<^verbatim>\<open>dict\<close> with the optional keys
  \<^verbatim>\<open>ascending\<close>, \<^verbatim>\<open>strict\<close> and \<^verbatim>\<open>axis\<close>.
\<close>

datatype sorted_arg = SortedFlag bool | SortedDict "bool option" "bool option" "int option"

fun truthy_sorted :: "sorted_arg \<Rightarrow> bool" where
  "truthy_sorted (SortedFlag b) = b"
| "truthy_sorted (SortedDict a s x) = (a \<noteq> None \<or> s \<noteq> None \<or> x \<noteq> None)"

section \<open>The numeric array library\<close>

text \<open>
  numpy is an external collaborator; these definitions give the semantics of the
  numpy operations the validators call.
\<close>

fun elem_le :: "elem \<Rightarrow> elem \<Rightarrow> bool" where
  "elem_le NaN y = False"
| "elem_le x NaN = False"
| "elem_le NegInf y = True"
| "elem_le x PosInf = True"
| "elem_le (Num x) (Num y) = (x \<le> y)"
| "elem_le x y = False"

fun elem_lt :: "elem \<Rightarrow> elem \<Rightarrow> bool" where
  "elem_lt NaN y = False"
| "elem_lt x NaN = False"
| "elem_lt PosInf y = False"
| "elem_lt x NegInf = False"
| "elem_lt (Num x) (Num y) = (x < y)"
| "elem_lt x y = True"

fun is_finite :: "elem \<Rightarrow> bool" where
  "is_finite (Num x) = True"
| "is_finite x = False"

text \<open>\<^verbatim>\<open>x == np.floor(x)\<close>: the floor of an infinity is itself, NaN equals nothing.\<close>

fun equals_floor :: "elem \<Rightarrow> bool" where
  "equals_floor (Num x) = (x = of_int \<lfloor>x\<rfloor>)"
| "equals_floor NaN = False"
| "equals_floor x = True"

definition as_dims :: "shapelike \<Rightarrow> int list" where
  "as_dims s = (case s of SInt n \<Rightarrow> [n] | STuple t \<Rightarrow> t)"

text \<open>
  \<^verbatim>\<open>arr.shape != reshape_to\<close>: a shape is a tuple, which never equals an \<^verbatim>\<open>int\<close>.
\<close>

definition shape_differs :: "nat list \<Rightarrow> shapelike \<Rightarrow> bool" where
  "shape_differs sh s = (case s of SInt n \<Rightarrow> True | STuple t \<Rightarrow> map int sh \<noteq> t)"

text \<open>
  \<^verbatim>\<open>arr.reshape(s)\<close>: at most one dimension may be \<open>-1\<close>, and it is inferred from the
  size; the sizes must agree. The elements keep their row-major order.
\<close>

definition np_reshape :: "ndarray \<Rightarrow> shapelike \<Rightarrow> error + ndarray" where
  "np_reshape a s =
     (let dims = as_dims s;
          n = int (prod_list (shape a));
          known = prod_list (filter (\<lambda>d. d \<noteq> -1) dims)
      in if 1 < length (filter (\<lambda>d. d = -1) dims)
         then Inl (ValueError ''can only specify one unknown dimension'')
         else if list_ex (\<lambda>d. d < -1) dims
         then Inl (ValueError ''negative dimensions not allowed'')
         else if list_ex (\<lambda>d. d = -1) dims
         then (if known = 0 \<or> n mod known \<noteq> 0
               then Inl (ValueError ''cannot reshape array'')
               else Inr (a\<lparr>shape := map (\<lambda>d. nat (if d = -1 then n div known else d)) dims\<rparr>))
         else if known = n
         then Inr (a\<lparr>shape := map nat dims\<rparr>)
         else Inl (ValueError ''cannot reshape array''))"

text \<open>
  \<^verbatim>\<open>np.broadcast_to(arr, s)\<close>: the array's shape, padded with leading ones, must agree
  with the target in every dimension or be 1 there; the data is replicated.
\<close>

fun bc_data :: "nat list \<Rightarrow> nat list \<Rightarrow> 'a list \<Rightarrow> 'a list" where
  "bc_data (d # ds) (t # ts) xs =
     (let c = prod_list ds;
          rows = map (\<lambda>i. bc_data ds ts (take c (drop (i * c) xs))) [0..<d]
      in if d = t then concat rows else concat (replicate t (concat rows)))"
| "bc_data ds ts xs = xs"

definition np_broadcast_to :: "ndarray \<Rightarrow> shapelike \<Rightarrow> error + ndarray" where
  "np_broadcast_to a s =
     (let dims = as_dims s;
          tgt = map nat dims;
          src = replicate (length tgt - length (shape a)) 1 @ shape a
      in if list_ex (\<lambda>d. d < 0) dims
         then Inl (ValueError ''all elements of broadcast shape must be non-negative'')
         else if length tgt < length (shape a)
         then Inl (ValueError ''input operand has more dimensions than allowed'')
         else if list_all2 (\<lambda>d t. d = t \<or> d = 1) src tgt
         then Inr (a\<lparr>shape := tgt, data := bc_data src tgt (data a)\<rparr>)
         else Inl (ValueError ''operands could not be broadcast together''))"

text \<open>
  The float64 values are \<open>0\<close>, \<open>m * 2 ^ e\<close> and \<open>- m * 2 ^ e\<close> with \<open>m < 2 ^ 53\<close>
  and \<open>-1074 \<le> e \<le> 971\<close>. \<open>round64 x\<close> is the float64 nearest to the real \<open>x\<close>, a tie
  going to the even significand (IEEE 754 round-to-nearest-even, the mode numpy runs
  in): the spacing of the float64 values around \<open>x\<close> is \<open>2 ^ f64_exponent x\<close>, and a
  result of magnitude \<open>2 ^ 1024\<close> or more overflows to an infinity.
\<close>

definition round_half_even :: "real \<Rightarrow> int" where
  "round_half_even q =
     (let f = \<lfloor>q\<rfloor>; r = q - of_int f
      in if r < 1 / 2 then f else if 1 / 2 < r then f + 1 else if even f then f else f + 1)"

definition f64_exponent :: "real \<Rightarrow> int" where
  "f64_exponent x = max \<lfloor>log 2 \<bar>x\<bar>\<rfloor> (- 1022) - 52"

definition round64 :: "real \<Rightarrow> elem" where
  "round64 x =
     (if x = 0 then Num 0
      else (let u = 2 powr of_int (f64_exponent x);
                y = of_int (round_half_even (\<bar>x\<bar> / u)) * u
            in if 2 ^ 1024 \<le> y then (if 0 < x then PosInf else NegInf)
               else Num (sgn x * y)))"

text \<open>
  \<^verbatim>\<open>arr.astype(d, copy=False)\<close>, element by element. A cast of an \<^verbatim>\<open>int64\<close> to
  \<^verbatim>\<open>float64\<close> rounds it (the integers up to \<open>2 ^ 53\<close> in magnitude are kept); a cast
  of a float to \<^verbatim>\<open>int64\<close> truncates towards zero, and a value that does not fit in 64
  bits (or is not finite) becomes the smallest \<^verbatim>\<open>int64\<close>, as on x86-64; a cast to
  \<^verbatim>\<open>bool\<close> tests for zero; a \<^verbatim>\<open>bool\<close> is 0 or 1 in every type.
\<close>

definition int64_min :: int where
  "int64_min = - (2 ^ 63)"

definition int64_max :: int where
  "int64_max = 2 ^ 63 - 1"

definition trunc_to_zero :: "real \<Rightarrow> int" where
  "trunc_to_zero x = (if 0 \<le> x then \<lfloor>x\<rfloor> else \<lceil>x\<rceil>)"

fun float_to_int64 :: "elem \<Rightarrow> elem" where
  "float_to_int64 (Num x) =
     (if int64_min \<le> trunc_to_zero x \<and> trunc_to_zero x \<le> int64_max
      then Num (of_int (trunc_to_zero x)) else Num (of_int int64_min))"
| "float_to_int64 x = Num (of_int int64_min)"

fun to_bool :: "elem \<Rightarrow> elem" where
  "to_bool (Num x) = Num (if x = 0 then 0 else 1)"
| "to_bool x = Num 1"

fun int_to_float64 :: "elem \<Rightarrow> elem" where
  "int_to_float64 (Num x) = round64 x"
| "int_to_float64 x = x"

fun convert_elem :: "dtype \<Rightarrow> dtype \<Rightarrow> elem \<Rightarrow> elem" where
  "convert_elem DFloat DInt x = float_to_int64 x"
| "convert_elem DInt DFloat x = int_to_float64 x"
| "convert_elem DFloat DBool x = to_bool x"
| "convert_elem DInt DBool x = to_bool x"
| "convert_elem d d' x = x"

definition np_astype :: "ndarray \<Rightarrow> dtype \<Rightarrow> ndarray" where
  "np_astype a d = a\<lparr>dtype := d, data := map (convert_elem (dtype a) d) (data a)\<rparr>"

fun issubdtype :: "dtype \<Rightarrow> dtype_class \<Rightarrow> bool" where
  "issubdtype d (CDtype d') = (d = d')"
| "issubdtype d CInteger = (d = DInt)"
| "issubdtype d CFloating = (d = DFloat)"
| "issubdtype d CNumber = (d = DInt \<or> d = DFloat)"
| "issubdtype d CGeneric = True"

text \<open>
  \<^verbatim>\<open>arr.tolist()\<close>: the elements nested by the shape; a 0-dimensional array gives a
  plain number. The container of each level is \<open>mk\<close>. (An array holds as many elements
  as its shape says, so the empty case of a 0-dimensional array is never met.)
\<close>

fun nest :: "(pyobj list \<Rightarrow> pyobj) \<Rightarrow> dtype \<Rightarrow> nat list \<Rightarrow> elem list \<Rightarrow> pyobj" where
  "nest mk d [] xs = (case xs of [] \<Rightarrow> PNumber d NaN | x # rest \<Rightarrow> PNumber d x)"
| "nest mk d (n # ns) xs =
     mk (map (\<lambda>i. nest mk d ns (take (prod_list ns) (drop (i * prod_list ns) xs))) [0..<n])"

definition tolist :: "ndarray \<Rightarrow> pyobj" where
  "tolist a = nest PList (dtype a) (shape a) (data a)"

section \<open>Collaborators outside the source files\<close>

text \<open>
  Modelled from the spec: \<^verbatim>\<open>cast_to_ndarray\<close> and \<^verbatim>\<open>cast_to_tuple_array\<close>
  (\<^verbatim>\<open>pyvista/core/utilities/arrays.py\<close>) are not among the source files. An array-like
  is "any input convertible to a rectangular numeric array (scalar, nested sequence,
  native array)": an array is returned as it is, a number becomes a 0-dimensional array,
  and a nested sequence becomes the array of its elements when it is rectangular; one
  that is not cannot be cast, which is a value error. Mixed element types are promoted
  (\<^verbatim>\<open>bool\<close> below \<^verbatim>\<open>int\<close> below \<^verbatim>\<open>float\<close>), and every element is converted to the
  promoted type, so an \<^verbatim>\<open>int\<close> beside a \<^verbatim>\<open>float\<close> is rounded to a float64; an empty
  sequence gives a float array.
\<close>

fun seq_shape :: "nat list option list \<Rightarrow> nat list option" where
  "seq_shape [] = Some [0]"
| "seq_shape (s # ss) =
     (case s of
        None \<Rightarrow> None
      | Some sh \<Rightarrow>
          if list_all (\<lambda>t. t = Some sh) ss then Some (Suc (length ss) # sh) else None)"

fun obj_shape :: "pyobj \<Rightarrow> nat list option" where
  "obj_shape (PNumber d x) = Some []"
| "obj_shape (PArray a) = Some (shape a)"
| "obj_shape (PList xs) = seq_shape (map obj_shape xs)"
| "obj_shape (PTuple xs) = seq_shape (map obj_shape xs)"

fun obj_dtypes :: "pyobj \<Rightarrow> dtype list" where
  "obj_dtypes (PNumber d x) = [d]"
| "obj_dtypes (PArray a) = [dtype a]"
| "obj_dtypes (PList xs) = concat (map obj_dtypes xs)"
| "obj_dtypes (PTuple xs) = concat (map obj_dtypes xs)"

text \<open>The elements of an array-like in row-major order, each with its own type.\<close>

fun obj_leaves :: "pyobj \<Rightarrow> (dtype \<times> elem) list" where
  "obj_leaves (PNumber d x) = [(d, x)]"
| "obj_leaves (PArray a) = map (Pair (dtype a)) (data a)"
| "obj_leaves (PList xs) = concat (map obj_leaves xs)"
| "obj_leaves (PTuple xs) = concat (map obj_leaves xs)"

definition promote :: "dtype list \<Rightarrow> dtype" where
  "promote ds =
     (if ds = [] \<or> DFloat \<in> set ds then DFloat else if DInt \<in> set ds then DInt else DBool)"

text \<open>The elements as the array of the promoted type holds them.\<close>

definition obj_data :: "pyobj \<Rightarrow> elem list" where
  "obj_data arr = map (\<lambda>(d, x). convert_elem d (promote (obj_dtypes arr)) x) (obj_leaves arr)"

definition cast_to_ndarray :: "pyobj \<Rightarrow> bool \<Rightarrow> bool \<Rightarrow> error + ndarray" where
  "cast_to_ndarray arr as_any_flag copy_flag =
     (case arr of
        PArray a \<Rightarrow> Inr a
      | _ \<Rightarrow>
          (case obj_shape arr of
             None \<Rightarrow> Inl (ValueError ''Input cannot be cast as ndarray.'')
           | Some sh \<Rightarrow>
               Inr \<lparr>shape = sh, dtype = promote (obj_dtypes arr), data = obj_data arr\<rparr>))"

text \<open>
  \<^verbatim>\<open>cast_to_tuple_array\<close>: "conversion to nested list or nested tuple (scalars unwrap
  to plain numbers)".
\<close>

definition cast_to_tuple_array :: "ndarray \<Rightarrow> pyobj" where
  "cast_to_tuple_array a = nest PTuple (dtype a) (shape a) (data a)"

text \<open>
  Modelled from the spec: the checkers of \<^verbatim>\<open>pyvista/core/validate/array_checkers.py\<close>
  and \<^verbatim>\<open>type_checkers.py\<close> are not among the source files. Each returns nothing or
  raises; the spec gives the kind of error ("a type-mismatch error for wrong numeric
  kind/dtype, a value error for shape/length/range/sort violations, tagged with a
  caller-supplied name") and what each check tests. The message of each is the
  caller-supplied name followed by a short description.
\<close>

text \<open>"By default require real (integer/floating) values".\<close>

definition check_real :: "ndarray \<Rightarrow> string \<Rightarrow> error + unit" where
  "check_real a nm =
     (if dtype a = DInt \<or> dtype a = DFloat then Inr ()
      else Inl (TypeError (nm @ '' must have real numbers.'')))"

text \<open>The data type must be a subtype of at least one of the given dtype-likes.\<close>

definition check_subdtype :: "dtype \<Rightarrow> dtype_class list \<Rightarrow> string \<Rightarrow> error + unit" where
  "check_subdtype d cs nm =
     (if list_ex (issubdtype d) cs then Inr ()
      else Inl (TypeError (nm @ '' has an incorrect dtype.'')))"

text \<open>
  "Accepts one shape or an alternative list of acceptable shapes; \<open>-1\<close> in a dimension
  means any size; \<open>()\<close> denotes scalar"; an integer is the shape of a 1-dimensional array
  of that length.
\<close>

definition shape_is_allowed :: "nat list \<Rightarrow> int list \<Rightarrow> bool" where
  "shape_is_allowed actual allowed = list_all2 (\<lambda>x y. int x = y \<or> y = -1) actual allowed"

definition allowed_shapes :: "shape_arg \<Rightarrow> shapelike list" where
  "allowed_shapes s = (case s of Shape x \<Rightarrow> [x] | Shapes xs \<Rightarrow> xs)"

definition check_shape :: "ndarray \<Rightarrow> shape_arg \<Rightarrow> string \<Rightarrow> error + unit" where
  "check_shape a s nm =
     (if list_ex (\<lambda>x. shape_is_allowed (shape a) (as_dims x)) (allowed_shapes s) then Inr ()
      else Inl (ValueError (nm @ '' has an incorrect shape.'')))"

text \<open>
  "Against exact length, minimum, and/or maximum; scalars count as length-compatible":
  the length is Python's \<^verbatim>\<open>len\<close> of the value given; with \<^verbatim>\<open>allow_scalar\<close> a scalar is
  taken as a sequence of one element, without it a scalar has no length.
\<close>

fun py_len :: "pyobj \<Rightarrow> nat option" where
  "py_len (PNumber d x) = None"
| "py_len (PList xs) = Some (length xs)"
| "py_len (PTuple xs) = Some (length xs)"
| "py_len (PArray a) = (case shape a of [] \<Rightarrow> None | n # ns \<Rightarrow> Some n)"

definition check_length ::
  "pyobj \<Rightarrow> int list option \<Rightarrow> int option \<Rightarrow> int option \<Rightarrow> bool \<Rightarrow> string \<Rightarrow> error + unit" where
  "check_length arr exact_length min_length max_length allow_scalar nm =
     (case (case py_len arr of None \<Rightarrow> (if allow_scalar then Some 1 else None) | Some n \<Rightarrow> Some n) of
        None \<Rightarrow> Inl (TypeError (nm @ '' must be a sequence.''))
      | Some n \<Rightarrow>
          if (case exact_length of None \<Rightarrow> False | Some ls \<Rightarrow> int n \<notin> set ls)
          then Inl (ValueError (nm @ '' has an incorrect length.''))
          else if (case min_length of None \<Rightarrow> False | Some m \<Rightarrow> int n < m)
          then Inl (ValueError (nm @ '' is too short.''))
          else if (case max_length of None \<Rightarrow> False | Some m \<Rightarrow> m < int n)
          then Inl (ValueError (nm @ '' is too long.''))
          else Inr ())"

text \<open>The value checks: "non-negativity, finiteness, integer-likeness (value equals its
  floor), sortedness (ascending/descending, strict/non-strict, along a chosen axis),
  inclusion in a closed-or-open numeric range (independently strict per bound)".\<close>

definition check_nonnegative :: "ndarray \<Rightarrow> string \<Rightarrow> error + unit" where
  "check_nonnegative a nm =
     (if list_all (elem_le (Num 0)) (data a) then Inr ()
      else Inl (ValueError (nm @ '' must be nonnegative.'')))"

definition check_finite :: "ndarray \<Rightarrow> string \<Rightarrow> error + unit" where
  "check_finite a nm =
     (if list_all is_finite (data a) then Inr ()
      else Inl (ValueError (nm @ '' must have finite values.'')))"

definition check_integerlike :: "ndarray \<Rightarrow> bool \<Rightarrow> string \<Rightarrow> error + unit" where
  "check_integerlike a strict nm =
     (if strict \<and> dtype a \<noteq> DInt then Inl (TypeError (nm @ '' must have an integer dtype.''))
      else if list_all equals_floor (data a) then Inr ()
      else Inl (ValueError (nm @ '' must have integer-like values.'')))"

definition check_range :: "ndarray \<Rightarrow> elem \<times> elem \<Rightarrow> bool \<Rightarrow> bool \<Rightarrow> string \<Rightarrow> error + unit" where
  "check_range a rng strict_lower strict_upper nm =
     (if list_all (\<lambda>x. (if strict_lower then elem_lt (fst rng) x else elem_le (fst rng) x) \<and>
                        (if strict_upper then elem_lt x (snd rng) else elem_le x (snd rng)))
           (data a)
      then Inr ()
      else Inl (ValueError (nm @ '' is out of range.'')))"

text \<open>
  Sortedness along axis \<open>k\<close> of row-major data: with \<open>c\<close> the number of elements of one
  index step along the axis and \<open>d\<close> the size of the axis, element \<open>i\<close> has a successor
  along the axis, element \<open>i + c\<close>, unless it is the last of its line.
\<close>

definition in_order :: "bool \<Rightarrow> bool \<Rightarrow> elem \<Rightarrow> elem \<Rightarrow> bool" where
  "in_order ascending strict x y =
     (if ascending then (if strict then elem_lt x y else elem_le x y)
      else (if strict then elem_lt y x else elem_le y x))"

definition sorted_along :: "bool \<Rightarrow> bool \<Rightarrow> nat list \<Rightarrow> nat \<Rightarrow> elem list \<Rightarrow> bool" where
  "sorted_along ascending strict sh k xs =
     (let c = prod_list (drop (Suc k) sh); d = sh ! k
      in list_all (\<lambda>i. d \<le> Suc ((i div c) mod d) \<or> in_order ascending strict (xs ! i) (xs ! (i + c)))
           [0..<length xs])"

definition check_sorted :: "ndarray \<Rightarrow> bool \<Rightarrow> bool \<Rightarrow> int \<Rightarrow> string \<Rightarrow> error + unit" where
  "check_sorted a ascending strict axis nm =
     (let ndim = int (length (shape a))
      in if ndim = 0 then Inr ()
         else if axis < - ndim \<or> ndim \<le> axis
         then Inl (ValueError (nm @ '': axis is out of bounds.''))
         else if sorted_along ascending strict (shape a) (nat (axis mod ndim)) (data a)
         then Inr ()
         else Inl (ValueError (nm @ '' must be sorted.'')))"

text \<open>\<^verbatim>\<open>check_contains\<close>: the value must be one of the given ones.\<close>

definition check_contains :: "string \<Rightarrow> string list \<Rightarrow> string \<Rightarrow> error + unit" where
  "check_contains item container nm =
     (if item \<in> set container then Inr ()
      else Inl (ValueError (nm @ '' is not one of the accepted values.'')))"

section \<open>The general array validator\<close>

text \<open>
  The keyword arguments of \<^verbatim>\<open>validate_array\<close>, each with the type the function
  documents; \<open>va_defaults\<close> holds the defaults of its signature.
\<close>

record va_args =
  must_have_shape :: "shape_arg option"
  must_have_dtype :: "dtype_class list option"
  must_have_length :: "int list option"
  must_have_min_length :: "int option"
  must_have_max_length :: "int option"
  must_be_nonnegative :: bool
  must_be_finite :: bool
  must_be_real :: bool
  must_be_integer_like :: bool
  must_be_sorted :: sorted_arg
  must_be_in_range :: "(elem \<times> elem) option"
  strict_lower_bound :: bool
  strict_upper_bound :: bool
  reshape_to :: "shapelike option"
  broadcast_to :: "shapelike option"
  dtype_out :: "dtype option"
  as_any :: bool
  copy :: bool
  to_list :: bool
  to_tuple :: bool
  name :: string

definition va_defaults :: va_args where
  "va_defaults =
     \<lparr>must_have_shape = None, must_have_dtype = None, must_have_length = None,
      must_have_min_length = None, must_have_max_length = None,
      must_be_nonnegative = False, must_be_finite = False, must_be_real = True,
      must_be_integer_like = False, must_be_sorted = SortedFlag False,
      must_be_in_range = None, strict_lower_bound = False, strict_upper_bound = False,
      reshape_to = None, broadcast_to = None, dtype_out = None, as_any = True,
      copy = False, to_list = False, to_tuple = False, name = ''Array''\<rparr>"

text \<open>
  \<^verbatim>\<open>validate_array\<close>, statement by statement. The steps that may raise are chained with
  \<open>rbind\<close>; \<open>a0\<close> is \<^verbatim>\<open>arr_out\<close> after the cast, \<open>a1\<close> after the reshape, \<open>a2\<close> after the
  broadcast and \<open>a3\<close> after the cast to \<^verbatim>\<open>dtype_out\<close>. The length check is given \<^verbatim>\<open>arr\<close>,
  the argument of the call, as the source has it.
\<close>

definition va_check_type :: "ndarray \<Rightarrow> va_args \<Rightarrow> error + unit" where
  "va_check_type a0 A =
     (if must_be_real A then check_real a0 (name A)
      else (case check_subdtype (dtype a0) [CNumber] (name A) of
              Inl (TypeError m) \<Rightarrow> Inl (TypeError (name A @ '' must be numeric.''))
            | r \<Rightarrow> r))"

definition va_check_values :: "ndarray \<Rightarrow> va_args \<Rightarrow> error + unit" where
  "va_check_values a2 A =
     rbind (if must_be_nonnegative A then check_nonnegative a2 (name A) else Inr ()) (\<lambda>u.
     rbind (if must_be_finite A then check_finite a2 (name A) else Inr ()) (\<lambda>u.
     rbind (if must_be_integer_like A then check_integerlike a2 False (name A) else Inr ()) (\<lambda>u.
     rbind (case must_be_in_range A of
              None \<Rightarrow> Inr ()
            | Some rng \<Rightarrow>
                check_range a2 rng (strict_lower_bound A) (strict_upper_bound A) (name A)) (\<lambda>u.
     (if truthy_sorted (must_be_sorted A)
      then (case must_be_sorted A of
              SortedDict asc str ax \<Rightarrow>
                check_sorted a2 (case asc of None \<Rightarrow> True | Some b \<Rightarrow> b)
                  (case str of None \<Rightarrow> False | Some b \<Rightarrow> b)
                  (case ax of None \<Rightarrow> -1 | Some k \<Rightarrow> k) (name A)
            | SortedFlag b \<Rightarrow> check_sorted a2 True False (-1) (name A))
      else Inr ())))))"

definition validate_array :: "pyobj \<Rightarrow> va_args \<Rightarrow> error + pyobj" where
  "validate_array arr A =
     rbind (cast_to_ndarray arr (as_any A) (copy A)) (\<lambda>a0.
     rbind (va_check_type a0 A) (\<lambda>u.
     rbind (case must_have_dtype A of
              None \<Rightarrow> Inr ()
            | Some cs \<Rightarrow> check_subdtype (dtype a0) cs (name A)) (\<lambda>u.
     rbind (case must_have_shape A of
              None \<Rightarrow> Inr ()
            | Some s \<Rightarrow> check_shape a0 s (name A)) (\<lambda>u.
     rbind (case reshape_to A of
              None \<Rightarrow> Inr a0
            | Some s \<Rightarrow> if shape_differs (shape a0) s then np_reshape a0 s else Inr a0) (\<lambda>a1.
     rbind (case broadcast_to A of
              None \<Rightarrow> Inr a1
            | Some s \<Rightarrow> if shape_differs (shape a1) s then np_broadcast_to a1 s else Inr a1) (\<lambda>a2.
     rbind (if must_have_length A \<noteq> None \<or> must_have_min_length A \<noteq> None
               \<or> must_have_max_length A \<noteq> None
            then check_length arr (must_have_length A) (must_have_min_length A)
                   (must_have_max_length A) True (name A)
            else Inr ()) (\<lambda>u.
     rbind (va_check_values a2 A) (\<lambda>u.
     (let a3 = (case dtype_out A of None \<Rightarrow> a2 | Some d \<Rightarrow> np_astype a2 d)
      in if to_tuple A then Inr (cast_to_tuple_array a3)
         else if to_list A then Inr (tolist a3)
         else Inr (PArray a3))))))))))"

section \<open>Keyword arguments\<close>

text \<open>
  The wrappers take \<^verbatim>\<open>**kwargs\<close> and pass them on to \<^verbatim>\<open>validate_array\<close>. The dictionary
  is a record with one field per keyword of \<^verbatim>\<open>validate_array\<close>: \<open>None\<close> when the key is
  absent, \<open>Some v\<close> when it is bound to \<open>v\<close> (which may itself be Python's \<^verbatim>\<open>None\<close>).
\<close>

record kwargs =
  kw_must_have_shape :: "shape_arg option option"
  kw_must_have_dtype :: "dtype_class list option option"
  kw_must_have_length :: "int list option option"
  kw_must_have_min_length :: "int option option"
  kw_must_have_max_length :: "int option option"
  kw_must_be_nonnegative :: "bool option"
  kw_must_be_finite :: "bool option"
  kw_must_be_real :: "bool option"
  kw_must_be_integer_like :: "bool option"
  kw_must_be_sorted :: "sorted_arg option"
  kw_must_be_in_range :: "(elem \<times> elem) option option"
  kw_strict_lower_bound :: "bool option"
  kw_strict_upper_bound :: "bool option"
  kw_reshape_to :: "shapelike option option"
  kw_broadcast_to :: "shapelike option option"
  kw_dtype_out :: "dtype option option"
  kw_as_any :: "bool option"
  kw_copy :: "bool option"
  kw_to_list :: "bool option"
  kw_to_tuple :: "bool option"
  kw_name :: "string option"

text \<open>The empty dictionary: a call with no keyword argument.\<close>

definition no_kwargs :: kwargs where
  "no_kwargs =
     \<lparr>kw_must_have_shape = None, kw_must_have_dtype = None, kw_must_have_length = None,
      kw_must_have_min_length = None, kw_must_have_max_length = None,
      kw_must_be_nonnegative = None, kw_must_be_finite = None, kw_must_be_real = None,
      kw_must_be_integer_like = None, kw_must_be_sorted = None, kw_must_be_in_range = None,
      kw_strict_lower_bound = None, kw_strict_upper_bound = None, kw_reshape_to = None,
      kw_broadcast_to = None, kw_dtype_out = None, kw_as_any = None, kw_copy = None,
      kw_to_list = None, kw_to_tuple = None, kw_name = None\<rparr>"

text \<open>\<^verbatim>\<open>kwargs.setdefault(key, d)\<close>, on the field of the key.\<close>

definition setdefault :: "'v option \<Rightarrow> 'v \<Rightarrow> 'v option" where
  "setdefault field d = (case field of None \<Rightarrow> Some d | Some v \<Rightarrow> Some v)"

definition arg_or :: "'v \<Rightarrow> 'v option \<Rightarrow> 'v" where
  "arg_or d field = (case field of None \<Rightarrow> d | Some v \<Rightarrow> v)"

text \<open>
  \<^verbatim>\<open>validate_array(arr, **kwargs)\<close>: a key that is absent takes the default of the
  signature.
\<close>

definition validate_array_kw :: "pyobj \<Rightarrow> kwargs \<Rightarrow> error + pyobj" where
  "validate_array_kw arr kw =
     validate_array arr
       \<lparr>must_have_shape = arg_or (must_have_shape va_defaults) (kw_must_have_shape kw),
        must_have_dtype = arg_or (must_have_dtype va_defaults) (kw_must_have_dtype kw),
        must_have_length = arg_or (must_have_length va_defaults) (kw_must_have_length kw),
        must_have_min_length = arg_or (must_have_min_length va_defaults) (kw_must_have_min_length kw),
        must_have_max_length = arg_or (must_have_max_length va_defaults) (kw_must_have_max_length kw),
        must_be_nonnegative = arg_or (must_be_nonnegative va_defaults) (kw_must_be_nonnegative kw),
        must_be_finite = arg_or (must_be_finite va_defaults) (kw_must_be_finite kw),
        must_be_real = arg_or (must_be_real va_defaults) (kw_must_be_real kw),
        must_be_integer_like = arg_or (must_be_integer_like va_defaults) (kw_must_be_integer_like kw),
        must_be_sorted = arg_or (must_be_sorted va_defaults) (kw_must_be_sorted kw),
        must_be_in_range = arg_or (must_be_in_range va_defaults) (kw_must_be_in_range kw),
        strict_lower_bound = arg_or (strict_lower_bound va_defaults) (kw_strict_lower_bound kw),
        strict_upper_bound = arg_or (strict_upper_bound va_defaults) (kw_strict_upper_bound kw),
        reshape_to = arg_or (reshape_to va_defaults) (kw_reshape_to kw),
        broadcast_to = arg_or (broadcast_to va_defaults) (kw_broadcast_to kw),
        dtype_out = arg_or (dtype_out va_defaults) (kw_dtype_out kw),
        as_any = arg_or (as_any va_defaults) (kw_as_any kw),
        copy = arg_or (copy va_defaults) (kw_copy kw),
        to_list = arg_or (to_list va_defaults) (kw_to_list kw),
        to_tuple = arg_or (to_tuple va_defaults) (kw_to_tuple kw),
        name = arg_or (name va_defaults) (kw_name kw)\<rparr>"

subsection \<open>Python's \<^verbatim>\<open>str\<close> of the pinned values\<close>

fun str_nat :: "nat \<Rightarrow> string" where
  "str_nat n =
     (if n < 10 then [''0123456789'' ! n]
      else str_nat (n div 10) @ [''0123456789'' ! (n mod 10)])"

definition str_int :: "int \<Rightarrow> string" where
  "str_int i = (if i < 0 then ''-'' @ str_nat (nat (- i)) else str_nat (nat i))"

fun join :: "string \<Rightarrow> string list \<Rightarrow> string" where
  "join sep [] = []"
| "join sep [x] = x"
| "join sep (x # y # ys) = x @ sep @ join sep (y # ys)"

definition str_shapelike :: "shapelike \<Rightarrow> string" where
  "str_shapelike s =
     (case s of
        SInt n \<Rightarrow> str_int n
      | STuple t \<Rightarrow>
          (case t of
             [x] \<Rightarrow> ''('' @ str_int x @ '',)''
           | _ \<Rightarrow> ''('' @ join '', '' (map str_int t) @ '')''))"

definition str_shape_arg :: "shape_arg \<Rightarrow> string" where
  "str_shape_arg s =
     (case s of
        Shape x \<Rightarrow> str_shapelike x
      | Shapes xs \<Rightarrow> ''['' @ join '', '' (map str_shapelike xs) @ '']'')"

definition str_option :: "('v \<Rightarrow> string) \<Rightarrow> 'v option \<Rightarrow> string" where
  "str_option f v = (case v of None \<Rightarrow> ''None'' | Some x \<Rightarrow> f x)"

definition str_bool :: "bool \<Rightarrow> string" where
  "str_bool b = (if b then ''True'' else ''False'')"

definition str_sorted_arg :: "sorted_arg \<Rightarrow> string" where
  "str_sorted_arg s =
     (case s of
        SortedFlag b \<Rightarrow> str_bool b
      | SortedDict a st ax \<Rightarrow>
          ''{'' @ join '', ''
            ((case a of None \<Rightarrow> [] | Some b \<Rightarrow> [[CHR 0x27] @ ''ascending'' @ [CHR 0x27] @ '': '' @ str_bool b]) @
             (case st of None \<Rightarrow> [] | Some b \<Rightarrow> [[CHR 0x27] @ ''strict'' @ [CHR 0x27] @ '': '' @ str_bool b]) @
             (case ax of None \<Rightarrow> [] | Some k \<Rightarrow> [[CHR 0x27] @ ''axis'' @ [CHR 0x27] @ '': '' @ str_int k]))
          @ ''}'')"

subsection \<open>Pinned keyword arguments\<close>

text \<open>
  \<^verbatim>\<open>_set_default_kwarg_mandatory(kwargs, key, default)\<close>, on the field of the key
  (\<open>dflt\<close> is \<^verbatim>\<open>default\<close>):
  \<open>field\<close> is the field before the call, the result is the field after it.
  \<open>calling_fname\<close> is \<^verbatim>\<open>inspect.stack()[1].function\<close>, the name of the function that
  makes the call, and \<open>str_of\<close> is Python's \<^verbatim>\<open>str\<close> on the type of the value.
\<close>

definition override_message :: "string \<Rightarrow> string \<Rightarrow> string \<Rightarrow> string" where
  "override_message key calling_fname default_str =
     ''Parameter '' @ [CHR 0x27] @ key @ [CHR 0x27] @ '' cannot be set for function ''
       @ [CHR 0x60] @ calling_fname @ [CHR 0x60] @ ''.'' @ [CHR 0x0A]
       @ ''Its value is automatically set to '' @ [CHR 0x60] @ default_str @ [CHR 0x60] @ ''.''"

definition set_default_kwarg_mandatory ::
  "('v \<Rightarrow> string) \<Rightarrow> string \<Rightarrow> 'v option \<Rightarrow> string \<Rightarrow> 'v \<Rightarrow> error + 'v option" where
  "set_default_kwarg_mandatory str_of calling_fname field key dflt =
     (let val = (case field of None \<Rightarrow> dflt | Some v \<Rightarrow> v)
      in if val \<noteq> dflt
         then Inl (ValueError (override_message key calling_fname (str_of dflt)))
         else Inr (Some dflt))"

section \<open>The specialized wrappers\<close>

text \<open>
  Each wrapper updates the dictionary of keyword arguments and calls
  \<^verbatim>\<open>validate_array\<close> with it. \<^verbatim>\<open>(-1)\<close> in the source is the integer \<open>-1\<close>, not a tuple.
\<close>

definition validate_number :: "pyobj \<Rightarrow> bool \<Rightarrow> kwargs \<Rightarrow> error + pyobj" where
  "validate_number num reshape kw =
     (let kw1 = kw\<lparr>kw_name := setdefault (kw_name kw) ''Number'',
                    kw_to_list := setdefault (kw_to_list kw) True,
                    kw_must_be_finite := setdefault (kw_must_be_finite kw) True,
                    kw_must_be_real := setdefault (kw_must_be_real kw) True\<rparr>
      in rbind (if reshape
                then rbind (set_default_kwarg_mandatory (str_option str_shapelike)
                              ''validate_number'' (kw_reshape_to kw1) ''reshape_to''
                              (Some (STuple [])))
                       (\<lambda>v. Inr (Shapes [STuple [], STuple [1]], kw1\<lparr>kw_reshape_to := v\<rparr>))
                else Inr (Shape (STuple []), kw1)) (\<lambda>(shp, kw2).
         rbind (set_default_kwarg_mandatory (str_option str_shape_arg) ''validate_number''
                  (kw_must_have_shape kw2) ''must_have_shape'' (Some shp)) (\<lambda>v.
         validate_array_kw num (kw2\<lparr>kw_must_have_shape := v\<rparr>))))"

definition validate_data_range :: "pyobj \<Rightarrow> kwargs \<Rightarrow> error + pyobj" where
  "validate_data_range rng kw =
     (let kw1 = kw\<lparr>kw_name := setdefault (kw_name kw) ''Data Range''\<rparr>
      in rbind (set_default_kwarg_mandatory (str_option str_shape_arg) ''validate_data_range''
                  (kw_must_have_shape kw1) ''must_have_shape'' (Some (Shape (SInt 2)))) (\<lambda>v.
         (let kw2 = kw1\<lparr>kw_must_have_shape := v\<rparr>
          in rbind (set_default_kwarg_mandatory str_sorted_arg ''validate_data_range''
                      (kw_must_be_sorted kw2) ''must_be_sorted'' (SortedFlag True)) (\<lambda>v.
             (let kw3 = kw2\<lparr>kw_must_be_sorted := v\<rparr>;
                  kw4 = (if kw_to_list kw3 = None
                         then kw3\<lparr>kw_to_tuple := setdefault (kw_to_tuple kw3) True\<rparr>
                         else kw3)
              in validate_array_kw rng kw4)))))"

definition validate_arrayNx3 :: "pyobj \<Rightarrow> bool \<Rightarrow> kwargs \<Rightarrow> error + pyobj" where
  "validate_arrayNx3 arr reshape kw =
     rbind (if reshape
            then rbind (set_default_kwarg_mandatory (str_option str_shapelike)
                          ''validate_arrayNx3'' (kw_reshape_to kw) ''reshape_to''
                          (Some (STuple [-1, 3])))
                   (\<lambda>v. Inr (Shapes [SInt 3, STuple [-1, 3]], kw\<lparr>kw_reshape_to := v\<rparr>))
            else Inr (Shape (STuple [-1, 3]), kw)) (\<lambda>(shp, kw2).
     rbind (set_default_kwarg_mandatory (str_option str_shape_arg) ''validate_arrayNx3''
              (kw_must_have_shape kw2) ''must_have_shape'' (Some shp)) (\<lambda>v.
     validate_array_kw arr (kw2\<lparr>kw_must_have_shape := v\<rparr>)))"

definition validate_arrayN :: "pyobj \<Rightarrow> bool \<Rightarrow> kwargs \<Rightarrow> error + pyobj" where
  "validate_arrayN arr reshape kw =
     rbind (if reshape
            then rbind (set_default_kwarg_mandatory (str_option str_shapelike)
                          ''validate_arrayN'' (kw_reshape_to kw) ''reshape_to''
                          (Some (SInt (-1))))
                   (\<lambda>v. Inr (Shapes [STuple [], SInt (-1), STuple [1, -1]],
                              kw\<lparr>kw_reshape_to := v\<rparr>))
            else Inr (Shape (SInt (-1)), kw)) (\<lambda>(shp, kw2).
     rbind (set_default_kwarg_mandatory (str_option str_shape_arg) ''validate_arrayN''
              (kw_must_have_shape kw2) ''must_have_shape'' (Some shp)) (\<lambda>v.
     validate_array_kw arr (kw2\<lparr>kw_must_have_shape := v\<rparr>)))"

text \<open>
  \<^verbatim>\<open>validate_arrayN_uintlike\<close>. \<^verbatim>\<open>int\<close> is the data type \<open>DInt\<close>, the one integer type
  of this model, so \<^verbatim>\<open>check_subdtype(kwargs['dtype_out'], np.integer)\<close> passes for no
  other value; its \<^verbatim>\<open>name\<close> is the default of the checker.
\<close>

definition validate_arrayN_uintlike :: "pyobj \<Rightarrow> bool \<Rightarrow> kwargs \<Rightarrow> error + pyobj" where
  "validate_arrayN_uintlike arr reshape kw =
     (let kw1 = kw\<lparr>kw_dtype_out := setdefault (kw_dtype_out kw) (Some DInt)\<rparr>
      in rbind (if kw_dtype_out kw1 \<noteq> Some (Some DInt)
                then (case kw_dtype_out kw1 of
                        Some (Some d) \<Rightarrow> check_subdtype d [CInteger] ''Input''
                      | _ \<Rightarrow> Inl (TypeError (''Input'' @ '' has an incorrect dtype.'')))
                else Inr ()) (\<lambda>u.
         rbind (set_default_kwarg_mandatory str_bool ''validate_arrayN_uintlike''
                  (kw_must_be_integer_like kw1) ''must_be_integer_like'' True) (\<lambda>v.
         (let kw2 = kw1\<lparr>kw_must_be_integer_like := v\<rparr>
          in rbind (set_default_kwarg_mandatory str_bool ''validate_arrayN_uintlike''
                      (kw_must_be_nonnegative kw2) ''must_be_nonnegative'' True) (\<lambda>v.
             validate_arrayN arr reshape (kw2\<lparr>kw_must_be_nonnegative := v\<rparr>))))))"

definition validate_array3 :: "pyobj \<Rightarrow> bool \<Rightarrow> bool \<Rightarrow> kwargs \<Rightarrow> error + pyobj" where
  "validate_array3 arr reshape broadcast kw =
     rbind (if reshape
            then rbind (set_default_kwarg_mandatory (str_option str_shapelike)
                          ''validate_array3'' (kw_reshape_to kw) ''reshape_to''
                          (Some (SInt (-1))))
                   (\<lambda>v. Inr ([STuple [3], STuple [1, 3], STuple [3, 1]],
                              kw\<lparr>kw_reshape_to := v\<rparr>))
            else Inr ([STuple [3]], kw)) (\<lambda>(shp, kw2).
     rbind (if broadcast
            then rbind (set_default_kwarg_mandatory (str_option str_shapelike)
                          ''validate_array3'' (kw_broadcast_to kw2) ''broadcast_to''
                          (Some (STuple [3])))
                   (\<lambda>v. Inr (shp @ [STuple [], STuple [1]], kw2\<lparr>kw_broadcast_to := v\<rparr>))
            else Inr (shp, kw2)) (\<lambda>(shp2, kw3).
     rbind (set_default_kwarg_mandatory (str_option str_shape_arg) ''validate_array3''
              (kw_must_have_shape kw3) ''must_have_shape'' (Some (Shapes shp2))) (\<lambda>v.
     validate_array_kw arr (kw3\<lparr>kw_must_have_shape := v\<rparr>))))"

section \<open>The axes validator\<close>

text \<open>
  Float64 arithmetic, as numpy's \<^verbatim>\<open>multiply\<close>, \<^verbatim>\<open>add\<close>, \<^verbatim>\<open>subtract\<close>, \<^verbatim>\<open>divide\<close>,
  \<^verbatim>\<open>sqrt\<close> and \<^verbatim>\<open>abs\<close> do it: the exact result of two finite operands is rounded to
  the nearest float64, NaN absorbs, an infinity times zero, the difference of equal
  infinities, the quotient of two zeros or two infinities and the root of a negative
  number are NaN. A zero divisor is the positive zero.
\<close>

fun elem_sign :: "elem \<Rightarrow> real" where
  "elem_sign (Num x) = sgn x"
| "elem_sign PosInf = 1"
| "elem_sign NegInf = -1"
| "elem_sign NaN = 0"

fun elem_neg :: "elem \<Rightarrow> elem" where
  "elem_neg (Num x) = Num (- x)"
| "elem_neg PosInf = NegInf"
| "elem_neg NegInf = PosInf"
| "elem_neg NaN = NaN"

fun elem_abs :: "elem \<Rightarrow> elem" where
  "elem_abs (Num x) = Num \<bar>x\<bar>"
| "elem_abs NaN = NaN"
| "elem_abs x = PosInf"

fun elem_mul :: "elem \<Rightarrow> elem \<Rightarrow> elem" where
  "elem_mul NaN y = NaN"
| "elem_mul x NaN = NaN"
| "elem_mul (Num x) (Num y) = round64 (x * y)"
| "elem_mul x y =
     (if elem_sign x * elem_sign y = 0 then NaN
      else if 0 < elem_sign x * elem_sign y then PosInf else NegInf)"

fun elem_add :: "elem \<Rightarrow> elem \<Rightarrow> elem" where
  "elem_add NaN y = NaN"
| "elem_add x NaN = NaN"
| "elem_add (Num x) (Num y) = round64 (x + y)"
| "elem_add PosInf NegInf = NaN"
| "elem_add NegInf PosInf = NaN"
| "elem_add (Num x) y = y"
| "elem_add x y = x"

definition elem_sub :: "elem \<Rightarrow> elem \<Rightarrow> elem" where
  "elem_sub x y = elem_add x (elem_neg y)"

fun elem_div :: "elem \<Rightarrow> elem \<Rightarrow> elem" where
  "elem_div NaN y = NaN"
| "elem_div x NaN = NaN"
| "elem_div (Num x) (Num y) =
     (if y = 0 then (if x = 0 then NaN else if 0 < x then PosInf else NegInf)
      else round64 (x / y))"
| "elem_div (Num x) y = Num 0"
| "elem_div x (Num y) = (if 0 \<le> y then x else elem_neg x)"
| "elem_div x y = NaN"

fun elem_sqrt :: "elem \<Rightarrow> elem" where
  "elem_sqrt (Num x) = (if x < 0 then NaN else round64 (sqrt x))"
| "elem_sqrt PosInf = PosInf"
| "elem_sqrt x = NaN"

text \<open>\<^verbatim>\<open>x == y\<close> on elements: NaN equals nothing.\<close>

fun elem_eq :: "elem \<Rightarrow> elem \<Rightarrow> bool" where
  "elem_eq NaN y = False"
| "elem_eq x NaN = False"
| "elem_eq x y = (x = y)"

text \<open>
  \<^verbatim>\<open>np.cross\<close> of two 3-vectors (each component is a difference of two products),
  \<^verbatim>\<open>np.dot\<close> of two vectors (the products are summed from left to right) and
  \<^verbatim>\<open>np.linalg.norm\<close> of a row, which is \<^verbatim>\<open>sqrt(add.reduce(x * x))\<close>.
\<close>

definition np_cross :: "elem list \<Rightarrow> elem list \<Rightarrow> elem list" where
  "np_cross u v =
     [elem_sub (elem_mul (u ! 1) (v ! 2)) (elem_mul (u ! 2) (v ! 1)),
      elem_sub (elem_mul (u ! 2) (v ! 0)) (elem_mul (u ! 0) (v ! 2)),
      elem_sub (elem_mul (u ! 0) (v ! 1)) (elem_mul (u ! 1) (v ! 0))]"

definition sum_elems :: "elem list \<Rightarrow> elem" where
  "sum_elems xs = (case xs of [] \<Rightarrow> Num 0 | x # rest \<Rightarrow> foldl elem_add x rest)"

definition np_dot :: "elem list \<Rightarrow> elem list \<Rightarrow> elem" where
  "np_dot u v = sum_elems (map2 elem_mul u v)"

definition np_norm :: "elem list \<Rightarrow> elem" where
  "np_norm u = elem_sqrt (sum_elems (map (\<lambda>x. elem_mul x x) u))"

text \<open>
  \<^verbatim>\<open>np.isclose(a, b)\<close> with numpy's default tolerances, which is
  \<^verbatim>\<open>(abs(a - b) <= atol + rtol * abs(b)) & isfinite(b) | (a == b)\<close> computed in float64
  with the float64 values of the literals \<^verbatim>\<open>1e-8\<close> and \<^verbatim>\<open>1e-5\<close>, and \<^verbatim>\<open>np.allclose\<close>.
\<close>

definition f64_atol :: elem where
  "f64_atol = round64 (1 / 10 ^ 8)"

definition f64_rtol :: elem where
  "f64_rtol = round64 (1 / 10 ^ 5)"

definition isclose :: "elem \<Rightarrow> elem \<Rightarrow> bool" where
  "isclose a b =
     ((elem_le (elem_abs (elem_sub a b)) (elem_add f64_atol (elem_mul f64_rtol (elem_abs b)))
        \<and> is_finite b)
      \<or> elem_eq a b)"

definition allclose :: "elem list \<Rightarrow> elem list \<Rightarrow> bool" where
  "allclose u v = list_all2 isclose u v"

text \<open>Row \<open>i\<close> of a 3x3 array, and the assignment \<^verbatim>\<open>axes_array[i] = v\<close>, which
  broadcasts the value to the row and casts it to the array's type.\<close>

definition row3 :: "'a list \<Rightarrow> nat \<Rightarrow> 'a list" where
  "row3 xs i = take 3 (drop (3 * i) xs)"

definition set_row3 :: "ndarray \<Rightarrow> nat \<Rightarrow> ndarray \<Rightarrow> error + ndarray" where
  "set_row3 a i v =
     rbind (np_broadcast_to v (STuple [3])) (\<lambda>w.
       Inr (a\<lparr>data := take (3 * i) (data a) @ data (np_astype w (dtype a))
                          @ drop (3 * i + 3) (data a)\<rparr>))"

definition np_zeros33 :: ndarray where
  "np_zeros33 = \<lparr>shape = [3, 3], dtype = DFloat, data = replicate 9 (Num 0)\<rparr>"

text \<open>
  \<^verbatim>\<open>validate_array\<close> returns an array unless \<^verbatim>\<open>to_list\<close> or \<^verbatim>\<open>to_tuple\<close> is set; the
  callers below set neither and use the result as an array.
\<close>

definition as_array :: "pyobj \<Rightarrow> error + ndarray" where
  "as_array r = cast_to_ndarray r True False"

text \<open>
  The assembly of \<^verbatim>\<open>axes_array\<close> (``Validate axes array''), up to the finiteness check.
\<close>

definition assemble_axes :: "pyobj list \<Rightarrow> string option \<Rightarrow> string \<Rightarrow> error + ndarray" where
  "assemble_axes axes must_have_orientation nm =
     (if length axes = 1
      then rbind (validate_array (axes ! 0)
                    (va_defaults\<lparr>must_have_shape := Some (Shape (STuple [3, 3])), name := nm,
                                  dtype_out := Some DFloat\<rparr>)) as_array
      else
        rbind (rbind (validate_array3 (axes ! 0) True False
                        (no_kwargs\<lparr>kw_name := Some (nm @ '' Vector[0]'')\<rparr>)) as_array) (\<lambda>v0.
        rbind (set_row3 np_zeros33 0 v0) (\<lambda>m0.
        rbind (rbind (validate_array3 (axes ! 1) True False
                        (no_kwargs\<lparr>kw_name := Some (nm @ '' Vector[1]'')\<rparr>)) as_array) (\<lambda>v1.
        rbind (set_row3 m0 1 v1) (\<lambda>m1.
        (if length axes = 3
         then rbind (rbind (validate_array3 (axes ! 2) True False
                              (no_kwargs\<lparr>kw_name := Some (nm @ '' Vector[2]'')\<rparr>)) as_array) (\<lambda>v2.
              set_row3 m1 2 v2)
         else (if must_have_orientation = Some ''right''
               then Inr (m1\<lparr>data := take 6 (data m1)
                          @ np_cross (row3 (data m1) 0) (row3 (data m1) 1)\<rparr>)
               else Inr (m1\<lparr>data := take 6 (data m1)
                          @ np_cross (row3 (data m1) 1) (row3 (data m1) 0)\<rparr>))))))))"

text \<open>
  The checks after the assembly, from \<^verbatim>\<open>check_finite(axes_array, name=name)\<close> to the
  end of the function. \<^verbatim>\<open>axes_norm\<close> holds each row divided by its norm.
\<close>

definition check_axes ::
  "ndarray \<Rightarrow> bool \<Rightarrow> bool \<Rightarrow> string option \<Rightarrow> string \<Rightarrow> error + pyobj" where
  "check_axes axes_array normalize_flag must_be_orthogonal must_have_orientation nm =
     rbind (check_finite axes_array nm) (\<lambda>u.
     (let a0 = row3 (data axes_array) 0;
          a1 = row3 (data axes_array) 1;
          a2 = row3 (data axes_array) 2
      in if isclose (np_dot a0 a1) (Num 1) \<or> isclose (np_dot a0 a2) (Num 1)
         then Inl (ValueError (nm @ '' cannot be parallel.''))
         else if list_ex (\<lambda>r. list_all (\<lambda>x. isclose x (Num 0)) r) [a0, a1, a2]
         then Inl (ValueError (nm @ '' cannot be zeros.''))
         else
           (let n0 = map (\<lambda>x. elem_div x (np_norm a0)) a0;
                n1 = map (\<lambda>x. elem_div x (np_norm a1)) a1;
                n2 = map (\<lambda>x. elem_div x (np_norm a2)) a2;
                cross_0_1 = np_cross n0 n1;
                cross_1_2 = np_cross n1 n2
            in if must_be_orthogonal \<and>
                  \<not> ((allclose cross_0_1 n2 \<or> allclose cross_0_1 (map elem_neg n2)) \<and>
                     (allclose cross_1_2 n0 \<or> allclose cross_1_2 (map elem_neg n0)))
               then Inl (ValueError (nm @ '' are not orthogonal.''))
               else if (case must_have_orientation of
                          Some ori \<Rightarrow> ori \<noteq> [] \<and> ori = ''right''
                                        \<and> elem_lt (np_dot cross_0_1 n2) (Num 0)
                        | None \<Rightarrow> False)
               then Inl (ValueError (nm @ '' do not have a right-handed orientation.''))
               else if (case must_have_orientation of
                          Some ori \<Rightarrow> ori \<noteq> [] \<and> ori = ''left''
                                        \<and> elem_lt (Num 0) (np_dot cross_0_1 n2)
                        | None \<Rightarrow> False)
               then Inl (ValueError (nm @ '' do not have a left-handed orientation.''))
               else if normalize_flag
               then Inr (PArray \<lparr>shape = [3, 3], dtype = DFloat, data = n0 @ n1 @ n2\<rparr>)
               else Inr (PArray axes_array))))"

text \<open>\<^verbatim>\<open>validate_axes(*axes, normalize, must_be_orthogonal, must_have_orientation, name)\<close>.\<close>

definition validate_axes ::
  "pyobj list \<Rightarrow> bool \<Rightarrow> bool \<Rightarrow> string option \<Rightarrow> string \<Rightarrow> error + pyobj" where
  "validate_axes axes normalize_flag must_be_orthogonal must_have_orientation nm =
     rbind (check_length (PTuple axes) (Some [1, 2, 3]) None None False (nm @ '' arguments'')) (\<lambda>u.
     rbind (case must_have_orientation of
              Some ori \<Rightarrow> check_contains ori [''right'', ''left''] (nm @ '' orientation'')
            | None \<Rightarrow>
                if length axes = 2
                then Inl (ValueError (nm @ '' orientation must be specified when only two vectors are given.''))
                else Inr ()) (\<lambda>u.
     rbind (assemble_axes axes must_have_orientation nm) (\<lambda>axes_array.
     check_axes axes_array normalize_flag must_be_orthogonal must_have_orientation nm)))"

section \<open>The transform validator\<close>

text \<open>
  Modelled from the spec: the graphics library's \<^verbatim>\<open>vtkMatrix4x4\<close>, \<^verbatim>\<open>vtkMatrix3x3\<close> and
  \<^verbatim>\<open>vtkTransform\<close> and \<^verbatim>\<open>array_from_vtkmatrix\<close> are not among the source files. The
  validator must "recognize them by type check and extract a flat numeric layout from
  each": a native value holds the elements of its matrix in row-major order.
\<close>

datatype transform_like =
    VtkMatrix4x4 "elem list"
  | VtkMatrix3x3 "elem list"
  | VtkTransform "elem list"
  | ArrayLike pyobj

definition array_from_vtkmatrix :: "nat \<Rightarrow> elem list \<Rightarrow> ndarray" where
  "array_from_vtkmatrix n els = \<lparr>shape = [n, n], dtype = DFloat, data = els\<rparr>"

definition np_eye :: "nat \<Rightarrow> ndarray" where
  "np_eye n =
     \<lparr>shape = [n, n], dtype = DFloat,
      data = concat (map (\<lambda>i. map (\<lambda>j. Num (if i = j then 1 else 0)) [0..<n]) [0..<n])\<rparr>"

text \<open>\<^verbatim>\<open>arr[:3, :3] = v\<close> on a 4x4 array \<^verbatim>\<open>arr\<close> and a 3x3 array \<^verbatim>\<open>v\<close>.\<close>

definition set_block3 :: "ndarray \<Rightarrow> ndarray \<Rightarrow> ndarray" where
  "set_block3 a v =
     a\<lparr>data := concat (map (\<lambda>i. if i < 3
                                  then row3 (data (np_astype v (dtype a))) i
                                         @ drop 3 (take 4 (drop (4 * i) (data a)))
                                  else take 4 (drop (4 * i) (data a))) [0..<4])\<rparr>"

definition transform_message :: string where
  "transform_message =
     ''Input transform must be one of:'' @ [CHR 0x0A]
       @ [CHR 0x09] @ ''vtkMatrix4x4'' @ [CHR 0x0A]
       @ [CHR 0x09] @ ''vtkMatrix3x3'' @ [CHR 0x0A]
       @ [CHR 0x09] @ ''vtkTransform'' @ [CHR 0x0A]
       @ [CHR 0x09] @ ''4x4 np.ndarray'' @ [CHR 0x0A]
       @ [CHR 0x09] @ ''3x3 np.ndarray'' @ [CHR 0x0A]"

definition validate_transform4x4 :: "transform_like \<Rightarrow> string \<Rightarrow> error + ndarray" where
  "validate_transform4x4 transform nm =
     (case transform of
        VtkMatrix4x4 m \<Rightarrow> Inr (array_from_vtkmatrix 4 m)
      | VtkMatrix3x3 m \<Rightarrow> Inr (set_block3 (np_eye 4) (array_from_vtkmatrix 3 m))
      | VtkTransform m \<Rightarrow> Inr (array_from_vtkmatrix 4 m)
      | ArrayLike t \<Rightarrow>
          (case rbind (validate_array t
                          (va_defaults\<lparr>must_have_shape := Some (Shapes [STuple [3, 3], STuple [4, 4]]),
                                        must_be_finite := True, name := nm\<rparr>)) as_array of
             Inl (ValueError m) \<Rightarrow> Inl (TypeError transform_message)
           | Inl e \<Rightarrow> Inl e
           | Inr valid_arr \<Rightarrow>
               if shape valid_arr = [3, 3] then Inr (set_block3 (np_eye 4) valid_arr)
               else Inr valid_arr))"

section \<open>Notions used in the statements\<close>

text \<open>
  The array \<^verbatim>\<open>validate_array\<close> holds in \<^verbatim>\<open>arr_out\<close> when it reaches its last three
  statements, and the value these return for it.
\<close>

definition va_array :: "pyobj \<Rightarrow> va_args \<Rightarrow> error + ndarray" where
  "va_array arr A =
     rbind (cast_to_ndarray arr (as_any A) (copy A)) (\<lambda>a0.
     rbind (va_check_type a0 A) (\<lambda>u.
     rbind (case must_have_dtype A of
              None \<Rightarrow> Inr ()
            | Some cs \<Rightarrow> check_subdtype (dtype a0) cs (name A)) (\<lambda>u.
     rbind (case must_have_shape A of
              None \<Rightarrow> Inr ()
            | Some s \<Rightarrow> check_shape a0 s (name A)) (\<lambda>u.
     rbind (case reshape_to A of
              None \<Rightarrow> Inr a0
            | Some s \<Rightarrow> if shape_differs (shape a0) s then np_reshape a0 s else Inr a0) (\<lambda>a1.
     rbind (case broadcast_to A of
              None \<Rightarrow> Inr a1
            | Some s \<Rightarrow> if shape_differs (shape a1) s then np_broadcast_to a1 s else Inr a1) (\<lambda>a2.
     rbind (if must_have_length A \<noteq> None \<or> must_have_min_length A \<noteq> None
               \<or> must_have_max_length A \<noteq> None
            then check_length arr (must_have_length A) (must_have_min_length A)
                   (must_have_max_length A) True (name A)
            else Inr ()) (\<lambda>u.
     rbind (va_check_values a2 A) (\<lambda>u.
       Inr (case dtype_out A of None \<Rightarrow> a2 | Some d \<Rightarrow> np_astype a2 d)))))))))"

definition va_output :: "va_args \<Rightarrow> ndarray \<Rightarrow> pyobj" where
  "va_output A a3 =
     (if to_tuple A then cast_to_tuple_array a3
      else if to_list A then tolist a3
      else PArray a3)"

text \<open>A nested tuple of plain numbers: what \<^verbatim>\<open>to_tuple=True\<close> promises.\<close>

fun is_nested_tuple :: "pyobj \<Rightarrow> bool" where
  "is_nested_tuple (PNumber d x) = True"
| "is_nested_tuple (PTuple xs) = list_all is_nested_tuple xs"
| "is_nested_tuple (PList xs) = False"
| "is_nested_tuple (PArray a) = False"

text \<open>
  The data-type checks of \<^verbatim>\<open>validate_array\<close>, which come before its shape check:
  \<^verbatim>\<open>must_be_real\<close> (or numeric) and \<^verbatim>\<open>must_have_dtype\<close>.
\<close>

definition dtype_checks_pass :: "ndarray \<Rightarrow> va_args \<Rightarrow> bool" where
  "dtype_checks_pass a A =
     (va_check_type a A = Inr () \<and>
      (case must_have_dtype A of
         None \<Rightarrow> True
       | Some cs \<Rightarrow> check_subdtype (dtype a) cs (name A) = Inr ()))"

text \<open>An array holds as many elements as its shape says.\<close>

definition well_formed :: "ndarray \<Rightarrow> bool" where
  "well_formed a = (length (data a) = prod_list (shape a))"

text \<open>\<^verbatim>\<open>np.floor\<close> on an element.\<close>

fun np_floor :: "elem \<Rightarrow> elem" where
  "np_floor (Num x) = Num (of_int \<lfloor>x\<rfloor>)"
| "np_floor x = x"

text \<open>
  The wrappers and their pinned constraints, as the spec lists them: ``each wrapper pins
  a subset of the general validator's constraints and forbids the caller from overriding
  them''. \<open>pinned w kw\<close> lists, in the order the wrapper handles them, each pinned
  keyword with the function that pins it, Python's \<^verbatim>\<open>str\<close> of the pinned value, and
  whether the caller's \<open>kw\<close> binds the keyword to another value; \<open>first_override\<close> is
  the first keyword so overridden.
\<close>

datatype wrapper =
    WNumber bool
  | WDataRange
  | WArrayNx3 bool
  | WArrayN bool
  | WArrayNUintlike bool
  | WArray3 bool bool

fun call_wrapper :: "wrapper \<Rightarrow> pyobj \<Rightarrow> kwargs \<Rightarrow> error + pyobj" where
  "call_wrapper (WNumber reshape) arr kw = validate_number arr reshape kw"
| "call_wrapper WDataRange arr kw = validate_data_range arr kw"
| "call_wrapper (WArrayNx3 reshape) arr kw = validate_arrayNx3 arr reshape kw"
| "call_wrapper (WArrayN reshape) arr kw = validate_arrayN arr reshape kw"
| "call_wrapper (WArrayNUintlike reshape) arr kw = validate_arrayN_uintlike arr reshape kw"
| "call_wrapper (WArray3 reshape broadcast) arr kw = validate_array3 arr reshape broadcast kw"

definition pin ::
  "string \<Rightarrow> string \<Rightarrow> ('v \<Rightarrow> string) \<Rightarrow> 'v option \<Rightarrow> 'v \<Rightarrow> string \<times> string \<times> string \<times> bool" where
  "pin key fname str_of field d = (key, fname, str_of d, field \<noteq> None \<and> field \<noteq> Some d)"

definition pinned_arrayN :: "bool \<Rightarrow> kwargs \<Rightarrow> (string \<times> string \<times> string \<times> bool) list" where
  "pinned_arrayN reshape kw =
     (if reshape
      then [pin ''reshape_to'' ''validate_arrayN'' (str_option str_shapelike)
              (kw_reshape_to kw) (Some (SInt (-1)))]
      else []) @
     [pin ''must_have_shape'' ''validate_arrayN'' (str_option str_shape_arg)
        (kw_must_have_shape kw)
        (Some (if reshape then Shapes [STuple [], SInt (-1), STuple [1, -1]] else Shape (SInt (-1))))]"

fun pinned :: "wrapper \<Rightarrow> kwargs \<Rightarrow> (string \<times> string \<times> string \<times> bool) list" where
  "pinned (WNumber reshape) kw =
     (if reshape
      then [pin ''reshape_to'' ''validate_number'' (str_option str_shapelike)
              (kw_reshape_to kw) (Some (STuple []))]
      else []) @
     [pin ''must_have_shape'' ''validate_number'' (str_option str_shape_arg)
        (kw_must_have_shape kw)
        (Some (if reshape then Shapes [STuple [], STuple [1]] else Shape (STuple [])))]"
| "pinned WDataRange kw =
     [pin ''must_have_shape'' ''validate_data_range'' (str_option str_shape_arg)
        (kw_must_have_shape kw) (Some (Shape (SInt 2))),
      pin ''must_be_sorted'' ''validate_data_range'' str_sorted_arg
        (kw_must_be_sorted kw) (SortedFlag True)]"
| "pinned (WArrayNx3 reshape) kw =
     (if reshape
      then [pin ''reshape_to'' ''validate_arrayNx3'' (str_option str_shapelike)
              (kw_reshape_to kw) (Some (STuple [-1, 3]))]
      else []) @
     [pin ''must_have_shape'' ''validate_arrayNx3'' (str_option str_shape_arg)
        (kw_must_have_shape kw)
        (Some (if reshape then Shapes [SInt 3, STuple [-1, 3]] else Shape (STuple [-1, 3])))]"
| "pinned (WArrayN reshape) kw = pinned_arrayN reshape kw"
| "pinned (WArrayNUintlike reshape) kw =
     [pin ''must_be_integer_like'' ''validate_arrayN_uintlike'' str_bool
        (kw_must_be_integer_like kw) True,
      pin ''must_be_nonnegative'' ''validate_arrayN_uintlike'' str_bool
        (kw_must_be_nonnegative kw) True] @
     pinned_arrayN reshape kw"
| "pinned (WArray3 reshape broadcast) kw =
     (if reshape
      then [pin ''reshape_to'' ''validate_array3'' (str_option str_shapelike)
              (kw_reshape_to kw) (Some (SInt (-1)))]
      else []) @
     (if broadcast
      then [pin ''broadcast_to'' ''validate_array3'' (str_option str_shapelike)
              (kw_broadcast_to kw) (Some (STuple [3]))]
      else []) @
     [pin ''must_have_shape'' ''validate_array3'' (str_option str_shape_arg)
        (kw_must_have_shape kw)
        (Some (Shapes ([STuple [3]] @ (if reshape then [STuple [1, 3], STuple [3, 1]] else [])
                        @ (if broadcast then [STuple [], STuple [1]] else []))))]"

fun first_override :: "(string \<times> string \<times> string \<times> bool) list \<Rightarrow> (string \<times> string \<times> string) option" where
  "first_override [] = None"
| "first_override ((key, fname, dstr, b) # ps) =
     (if b then Some (key, fname, dstr) else first_override ps)"

text \<open>The one check a wrapper makes before its pinned parameters.\<close>

fun precheck_passes :: "wrapper \<Rightarrow> kwargs \<Rightarrow> bool" where
  "precheck_passes (WArrayNUintlike reshape) kw =
     (kw_dtype_out kw = None \<or> kw_dtype_out kw = Some (Some DInt))"
| "precheck_passes w kw = True"

text \<open>
  A real number that is a float64 value: rounding leaves it as it is. Every Python
  \<^verbatim>\<open>float\<close> is one, and so is an \<^verbatim>\<open>int\<close> of magnitude up to \<open>2 ^ 53\<close>.
\<close>

definition is_float64 :: "real \<Rightarrow> bool" where
  "is_float64 x = (round64 x = Num x)"

text \<open>
  A 3-vector given as a list of three finite Python numbers of one type, the row of
  float64 values it becomes in \<^verbatim>\<open>axes_array\<close>, a row divided by its norm, and the 3x3
  float array with the given elements.
\<close>

definition vec3 :: "dtype \<Rightarrow> real \<Rightarrow> real \<Rightarrow> real \<Rightarrow> pyobj" where
  "vec3 d x y z = PList [PNumber d (Num x), PNumber d (Num y), PNumber d (Num z)]"

definition row_of :: "dtype \<Rightarrow> real \<Rightarrow> real \<Rightarrow> real \<Rightarrow> elem list" where
  "row_of d x y z = map (convert_elem d DFloat) [Num x, Num y, Num z]"

definition normalized :: "elem list \<Rightarrow> elem list" where
  "normalized u = map (\<lambda>x. elem_div x (np_norm u)) u"

definition frame :: "elem list \<Rightarrow> ndarray" where
  "frame xs = \<lparr>shape = [3, 3], dtype = DFloat, data = xs\<rparr>"

text \<open>
  A number of moderate size: zero, or of magnitude between \<open>2 ^ -500\<close> and \<open>2 ^ 500\<close>.
  The squares, sums and quotients that \<^verbatim>\<open>validate_axes\<close> computes from such numbers
  neither overflow nor underflow.
\<close>

definition moderate :: "real \<Rightarrow> bool" where
  "moderate x = (x = 0 \<or> (2 powr (- 500) \<le> \<bar>x\<bar> \<and> \<bar>x\<bar> \<le> 2 powr 500))"

section \<open>Basic facts\<close>

lemma rbind_Inr [simp]: "rbind (Inr x) f = f x"
  by (simp add: rbind_def)

lemma rbind_Inl [simp]: "rbind (Inl e) f = Inl e"
  by (simp add: rbind_def)

lemma rbind_assoc: "rbind (rbind m f) g = rbind m (\<lambda>x. rbind (f x) g)"
  by (cases m) simp_all

lemma validate_array_split:
  "validate_array arr A = rbind (va_array arr A) (\<lambda>a3. Inr (va_output A a3))"
  unfolding validate_array_def va_array_def rbind_assoc va_output_def Let_def
  by (cases "to_tuple A"; cases "to_list A") (simp_all cong: if_cong option.case_cong)

lemma nest_tuple: "is_nested_tuple (nest PTuple d sh xs)"
  by (induction sh arbitrary: xs) (auto simp: list_all_iff split: list.splits)

lemmas va_congs = if_cong option.case_cong sum.case_cong error.case_cong sorted_arg.case_cong

lemma convert_elem_same [simp]: "convert_elem d d x = x"
  by (cases d) simp_all

lemma promote_single [simp]: "promote [d] = d"
  by (cases d) (simp_all add: promote_def)

lemma obj_data_PNumber [simp]: "obj_data (PNumber d x) = [x]"
  by (simp add: obj_data_def)

lemma obj_data_PArray [simp]: "obj_data (PArray a) = data a"
  by (simp add: obj_data_def comp_def)

lemmas eval_defs = validate_array_def va_defaults_def cast_to_ndarray_def promote_def obj_data_def
  va_check_type_def check_real_def check_length_def shape_differs_def np_reshape_def
  np_broadcast_to_def as_dims_def va_check_values_def check_shape_def allowed_shapes_def
  shape_is_allowed_def check_subdtype_def cast_to_tuple_array_def tolist_def np_astype_def

lemmas sorted_eval = check_sorted_def sorted_along_def in_order_def check_nonnegative_def
  check_finite_def check_integerlike_def check_range_def upt_conv_Cons

lemmas wrapper_defs = set_default_kwarg_mandatory_def no_kwargs_def setdefault_def
  validate_array_kw_def arg_or_def

lemmas str_defs = str_option_def str_shape_arg_def str_shapelike_def str_int_def str_bool_def

lemma va_array_to_list: "va_array arr (A\<lparr>to_list := b\<rparr>) = va_array arr A"
  by (simp add: va_array_def va_check_type_def va_check_values_def cong: va_congs)

lemma va_array_to_tuple: "va_array arr (A\<lparr>to_tuple := b\<rparr>) = va_array arr A"
  by (simp add: va_array_def va_check_type_def va_check_values_def cong: va_congs)

lemma as_array_PArray: "as_array (PArray a) = Inr a"
  by (simp add: as_array_def cast_to_ndarray_def)

lemma check_real_cases:
  "check_real a nm = Inr () \<or> (\<exists>m. check_real a nm = Inl (TypeError m))"
  by (simp add: check_real_def)

section \<open>Rounding to float64\<close>

lemma rhe_int: "round_half_even (of_int m) = m"
  by (simp add: round_half_even_def)

lemma rhe_lower: "\<lfloor>q\<rfloor> \<le> round_half_even q"
  by (simp add: round_half_even_def Let_def)

lemma rhe_upper: "round_half_even q \<le> \<lfloor>q\<rfloor> + 1"
  by (simp add: round_half_even_def Let_def)

lemma rhe_le_int: "q \<le> of_int n \<Longrightarrow> round_half_even q \<le> n"
proof (cases "q = of_int n")
  case True
  then show ?thesis by (simp add: rhe_int)
next
  case False
  assume "q \<le> of_int n"
  with False have "q < of_int n" by simp
  then have "\<lfloor>q\<rfloor> < n" by (simp add: floor_less_iff)
  with rhe_upper [of q] show ?thesis by linarith
qed

lemma rhe_ge_int: "of_int n \<le> q \<Longrightarrow> n \<le> round_half_even q"
proof -
  assume "of_int n \<le> q"
  then have "n \<le> \<lfloor>q\<rfloor>" by (simp add: le_floor_iff)
  with rhe_lower [of q] show ?thesis by linarith
qed

lemma floor_log2:
  fixes x :: real
  assumes "2 powr of_int k \<le> \<bar>x\<bar>" "\<bar>x\<bar> < 2 powr of_int (k + 1)"
  shows "\<lfloor>log 2 \<bar>x\<bar>\<rfloor> = k"
proof -
  have "0 < (2::real) powr of_int k" by simp
  with assms(1) have "0 < \<bar>x\<bar>" by linarith
  then show ?thesis using assms by (simp add: floor_log_eq_powr_iff)
qed

lemma floor_log2_bounds:
  fixes x :: real
  assumes "x \<noteq> 0"
  shows "2 powr of_int \<lfloor>log 2 \<bar>x\<bar>\<rfloor> \<le> \<bar>x\<bar>" "\<bar>x\<bar> < 2 powr of_int (\<lfloor>log 2 \<bar>x\<bar>\<rfloor> + 1)"
proof -
  have "0 < \<bar>x\<bar>" using assms by simp
  then have "(\<lfloor>log 2 \<bar>x\<bar>\<rfloor> = \<lfloor>log 2 \<bar>x\<bar>\<rfloor>) =
      (2 powr of_int \<lfloor>log 2 \<bar>x\<bar>\<rfloor> \<le> \<bar>x\<bar> \<and> \<bar>x\<bar> < 2 powr of_int (\<lfloor>log 2 \<bar>x\<bar>\<rfloor> + 1))"
    by (rule floor_log_eq_powr_iff) simp
  then show "2 powr of_int \<lfloor>log 2 \<bar>x\<bar>\<rfloor> \<le> \<bar>x\<bar>" "\<bar>x\<bar> < 2 powr of_int (\<lfloor>log 2 \<bar>x\<bar>\<rfloor> + 1)"
    by simp_all
qed

lemma round64_zero: "round64 0 = Num 0"
  by (simp add: round64_def)

lemma round64_minus: "round64 (- x) = elem_neg (round64 x)"
  by (simp add: round64_def f64_exponent_def Let_def sgn_if)

lemma round64_exact:
  assumes "x \<noteq> 0" "\<bar>x\<bar> / 2 powr of_int (f64_exponent x) = of_int m" "\<bar>x\<bar> < 2 ^ 1024"
  shows "round64 x = Num x"
proof -
  have "of_int m * 2 powr of_int (f64_exponent x) = \<bar>x\<bar>"
    using assms(2) by (simp add: field_simps)
  then show ?thesis
    using assms by (simp add: round64_def Let_def rhe_int sgn_if)
qed


lemma f64_exponent_eq:
  fixes x :: real
  assumes "2 powr of_int k \<le> \<bar>x\<bar>" "\<bar>x\<bar> < 2 powr of_int (k + 1)"
  shows "f64_exponent x = max k (- 1022) - 52"
  using floor_log2 [OF assms] by (simp add: f64_exponent_def)

lemma two_powr_int: "0 \<le> k \<Longrightarrow> (2::real) powr of_int k = 2 ^ nat k"
  by (simp add: powr_real_of_int)

lemma powr2_lessD: "(2::real) powr of_int a < 2 powr of_int b \<Longrightarrow> a < b"
  by simp

lemma powr2_leD: "(2::real) powr of_int a \<le> 2 powr of_int b \<Longrightarrow> a \<le> b"
  by simp

lemma powr2_leI: "a \<le> b \<Longrightarrow> (2::real) powr of_int a \<le> 2 powr of_int b"
  by simp

lemma round64_pow2:
  assumes "n \<le> 1023"
  shows "round64 (2 ^ n) = Num (2 ^ n)"
proof -
  have e: "f64_exponent (2 ^ n) = int n - 52"
  proof -
    have "f64_exponent (2 ^ n) = max (int n) (- 1022) - 52"
      by (rule f64_exponent_eq) (simp_all add: powr_realpow powr_add)
    then show ?thesis by simp
  qed
  have "\<bar>(2::real) ^ n\<bar> / 2 powr of_int (f64_exponent (2 ^ n)) = 2 powr 52"
    by (simp add: e powr_diff powr_realpow)
  also have "\<dots> = of_int (2 ^ 52)" by simp
  finally have q: "\<bar>(2::real) ^ n\<bar> / 2 powr of_int (f64_exponent (2 ^ n)) = of_int (2 ^ 52)" .
  have "(2::real) ^ n < 2 ^ 1024"
    by (rule power_strict_increasing) (use assms in simp_all)
  then have "\<bar>(2::real) ^ n\<bar> < 2 ^ 1024" by simp
  from round64_exact [OF _ q this] show ?thesis by simp
qed

lemma round64_overflow:
  assumes "2 ^ 1024 \<le> x"
  shows "round64 x = PosInf"
proof -
  have "(0::real) < 2 ^ 1024" by simp
  with assms have x0: "x \<noteq> 0" "0 < x" by linarith+
  define j where "j = \<lfloor>log 2 \<bar>x\<bar>\<rfloor>"
  have b: "2 powr of_int j \<le> \<bar>x\<bar>" "\<bar>x\<bar> < 2 powr of_int (j + 1)"
    unfolding j_def using floor_log2_bounds [OF x0(1)] by simp_all
  have "(2::real) powr of_int 1024 \<le> \<bar>x\<bar>" using assms by (simp add: powr_real_of_int)
  with b(2) have "(2::real) powr of_int 1024 < 2 powr of_int (j + 1)" by linarith
  then have "1024 < j + 1" by (rule powr2_lessD)
  then have j: "1024 \<le> j" by simp
  have e: "f64_exponent x = j - 52" using j by (simp add: f64_exponent_def j_def)
  define u where "u = (2::real) powr of_int (j - 52)"
  have u0: "0 < u" by (simp add: u_def)
  have ju: "2 powr of_int j = of_int (2 ^ 52) * u"
    by (simp add: u_def powr_diff)
  have "of_int (2 ^ 52) \<le> \<bar>x\<bar> / u"
    using b(1) u0 by (simp add: ju pos_le_divide_eq)
  then have "2 ^ 52 \<le> round_half_even (\<bar>x\<bar> / u)" by (rule rhe_ge_int)
  then have "of_int (2 ^ 52) \<le> (of_int (round_half_even (\<bar>x\<bar> / u)) :: real)"
    by (simp only: of_int_le_iff)
  then have "of_int (2 ^ 52) * u \<le> of_int (round_half_even (\<bar>x\<bar> / u)) * u"
    using u0 by (simp only: mult_le_cancel_right_pos)
  moreover have "(2::real) ^ 1024 \<le> 2 powr of_int j"
  proof -
    have "(2::real) powr of_int 1024 \<le> 2 powr of_int j" using j by (rule powr2_leI)
    then show ?thesis by (simp add: powr_real_of_int)
  qed
  ultimately have "2 ^ 1024 \<le> of_int (round_half_even (\<bar>x\<bar> / u)) * u"
    using ju by linarith
  then show ?thesis using x0 by (simp add: round64_def Let_def e u_def)
qed

lemma round64_bounded:
  assumes "0 \<le> x" "x \<le> 2 powr of_int k" "- 1022 \<le> k" "k \<le> 1023"
  shows "\<exists>y. round64 x = Num y \<and> 0 \<le> y \<and> y \<le> 2 powr of_int k"
proof (cases "x = 0")
  case True
  then show ?thesis by (simp add: round64_zero)
next
  case False
  with assms have x0: "x \<noteq> 0" "0 < x" "\<bar>x\<bar> = x" by simp_all
  define j where "j = \<lfloor>log 2 \<bar>x\<bar>\<rfloor>"
  have b: "2 powr of_int j \<le> x" "x < 2 powr of_int (j + 1)"
    unfolding j_def using floor_log2_bounds [OF x0(1)] x0(3) by simp_all
  have "(2::real) powr of_int j \<le> 2 powr of_int k" using b(1) assms(2) by linarith
  then have jk: "j \<le> k" by (rule powr2_leD)
  define e where "e = max j (- 1022) - 52"
  have e: "f64_exponent x = e" by (simp add: f64_exponent_def j_def e_def)
  have ke: "52 \<le> k - e" using jk assms(3) by (simp add: e_def)
  define u where "u = (2::real) powr of_int e"
  have u0: "0 < u" by (simp add: u_def)
  have ku: "2 powr of_int k = of_int (2 ^ nat (k - e)) * u"
  proof -
    have "(2::real) powr of_int k = 2 powr (of_int (k - e) + of_int e)" by simp
    also have "\<dots> = 2 powr of_int (k - e) * u" by (simp only: powr_add u_def)
    also have "(2::real) powr of_int (k - e) = 2 ^ nat (k - e)"
      using ke by (intro two_powr_int) simp
    finally show ?thesis by simp
  qed
  have "x / u \<le> of_int (2 ^ nat (k - e))"
    using assms(2) u0 by (simp add: ku pos_divide_le_eq)
  then have "round_half_even (x / u) \<le> 2 ^ nat (k - e)" by (rule rhe_le_int)
  then have "(of_int (round_half_even (x / u)) :: real) \<le> of_int (2 ^ nat (k - e))"
    by (simp only: of_int_le_iff)
  then have up: "of_int (round_half_even (x / u)) * u \<le> 2 powr of_int k"
    using u0 by (simp only: ku mult_le_cancel_right_pos)
  have "0 \<le> x / u" using x0 u0 by simp
  then have "of_int 0 \<le> x / u" by simp
  then have "0 \<le> round_half_even (x / u)" by (rule rhe_ge_int)
  then have lo: "0 \<le> of_int (round_half_even (x / u)) * u" using u0 by simp
  have "(2::real) powr of_int k \<le> 2 powr of_int 1023"
    using assms(4) by (rule powr2_leI)
  also have "\<dots> < 2 ^ 1024" by (simp add: powr_real_of_int)
  finally have "of_int (round_half_even (x / u)) * u < 2 ^ 1024" using up by linarith
  then show ?thesis using x0 up lo by (simp add: round64_def Let_def e u_def [symmetric])
qed

lemma round64_int:
  assumes "\<bar>n\<bar> \<le> 2 ^ 53"
  shows "round64 (of_int n) = Num (of_int n)"
proof (cases "n = 0")
  case True
  then show ?thesis by (simp add: round64_zero)
next
  case False
  define x :: real where "x = of_int n"
  define a where "a = \<bar>n\<bar>"
  have xa: "\<bar>x\<bar> = of_int a" by (simp add: x_def a_def)
  have a1: "1 \<le> a" using False by (simp add: a_def)
  have x0: "x \<noteq> 0" using False by (simp add: x_def)
  define j where "j = \<lfloor>log 2 \<bar>x\<bar>\<rfloor>"
  have b: "2 powr of_int j \<le> (of_int a :: real)" "(of_int a :: real) < 2 powr of_int (j + 1)"
    unfolding j_def using floor_log2_bounds [OF x0] xa by simp_all
  have "(1::real) < 2 powr of_int (j + 1)" using b(2) a1 by linarith
  then have "(2::real) powr of_int 0 < 2 powr of_int (j + 1)" by simp
  then have "0 < j + 1" by (rule powr2_lessD)
  then have j0: "0 \<le> j" by simp
  have a53: "(of_int a :: real) \<le> 2 ^ 53" using assms unfolding a_def [symmetric]
    by (metis of_int_le_iff of_int_numeral of_int_power)
  then have "(2::real) powr of_int j \<le> 2 powr of_int 53" using b(1) by (simp add: powr_real_of_int)
  then have j53: "j \<le> 53" by (rule powr2_leD)
  have e: "f64_exponent x = j - 52" using j0 by (simp add: f64_exponent_def j_def)
  have "\<exists>m. \<bar>x\<bar> / 2 powr of_int (j - 52) = of_int m"
  proof (cases "j \<le> 52")
    case True
    have "(2::real) powr of_int (j - 52) = 1 / 2 powr of_int (52 - j)"
      by (simp add: powr_diff)
    also have "\<dots> = 1 / 2 ^ nat (52 - j)"
      using True by (simp only: two_powr_int [of "52 - j"] diff_ge_0_iff_ge)
    finally have "\<bar>x\<bar> / 2 powr of_int (j - 52) = of_int (a * 2 ^ nat (52 - j))"
      by (simp add: xa)
    then show ?thesis by blast
  next
    case False
    with j53 have j: "j = 53" by simp
    have "(2::real) ^ 53 \<le> of_int a" using b(1) by (simp add: j powr_real_of_int)
    with a53 have "(of_int a :: real) = 2 ^ 53" by simp
    then have "\<bar>x\<bar> / 2 powr of_int (j - 52) = of_int (2 ^ 52)" by (simp add: xa j)
    then show ?thesis by blast
  qed
  then obtain m where m: "\<bar>x\<bar> / 2 powr of_int (f64_exponent x) = of_int m" using e by auto
  have "\<bar>x\<bar> < 2 ^ 1024" using a53 xa by simp
  from round64_exact [OF x0 m this] show ?thesis by (simp add: x_def)
qed

lemma round64_tie: "round64 (2 ^ 53 + 1) = Num (2 ^ 53)"
proof -
  define x :: real where "x = 2 ^ 53 + 1"
  have e: "f64_exponent x = 1"
  proof -
    have "f64_exponent x = max 53 (- 1022) - 52"
      by (rule f64_exponent_eq) (simp_all add: x_def powr_real_of_int)
    then show ?thesis by simp
  qed
  have q: "\<bar>x\<bar> / 2 powr of_int 1 = 2 ^ 52 + 1 / 2" by (simp add: x_def)
  have f: "\<lfloor>(2::real) ^ 52 + 1 / 2\<rfloor> = 2 ^ 52"
    by (rule floor_unique) simp_all
  have "round_half_even (2 ^ 52 + 1 / 2) = 2 ^ 52"
    unfolding round_half_even_def f Let_def by simp
  then show ?thesis
    unfolding x_def [symmetric] by (simp add: round64_def Let_def e q) (simp add: x_def)
qed


lemma rhe_err: "\<bar>of_int (round_half_even q) - q\<bar> \<le> 1 / 2"
proof -
  have "of_int \<lfloor>q\<rfloor> \<le> q" "q < of_int \<lfloor>q\<rfloor> + 1" by linarith+
  then show ?thesis
    by (auto simp: round_half_even_def Let_def)
qed

lemma round64_lower:
  assumes "2 powr of_int k \<le> x" "x \<le> 2 powr of_int 1023" "- 1022 \<le> k"
  shows "\<exists>y. round64 x = Num y \<and> 2 powr of_int k \<le> y"
proof -
  have "(0::real) < 2 powr of_int k" by simp
  with assms(1) have xp: "0 < x" by linarith
  then have x0: "x \<noteq> 0" "\<bar>x\<bar> = x" by simp_all
  define j where "j = \<lfloor>log 2 \<bar>x\<bar>\<rfloor>"
  have b: "2 powr of_int j \<le> x" "x < 2 powr of_int (j + 1)"
    unfolding j_def using floor_log2_bounds [OF x0(1)] x0(2) by simp_all
  have "(2::real) powr of_int k < 2 powr of_int (j + 1)" using assms(1) b(2) by linarith
  then have "k < j + 1" by (rule powr2_lessD)
  then have kj: "k \<le> j" by simp
  have e: "f64_exponent x = j - 52" using kj assms(3) by (simp add: f64_exponent_def j_def)
  define u where "u = (2::real) powr of_int (j - 52)"
  have u0: "0 < u" by (simp add: u_def)
  have ju: "2 powr of_int j = of_int (2 ^ 52) * u"
    by (simp add: u_def powr_diff)
  have "of_int (2 ^ 52) \<le> x / u"
    using b(1) u0 by (simp add: ju pos_le_divide_eq)
  then have "2 ^ 52 \<le> round_half_even (x / u)" by (rule rhe_ge_int)
  then have "of_int (2 ^ 52) \<le> (of_int (round_half_even (x / u)) :: real)"
    by (simp only: of_int_le_iff)
  then have "of_int (2 ^ 52) * u \<le> of_int (round_half_even (x / u)) * u"
    using u0 by (simp only: mult_le_cancel_right_pos)
  then have lo: "2 powr of_int j \<le> of_int (round_half_even (x / u)) * u"
    using ju by simp
  have "(2::real) powr of_int k \<le> 2 powr of_int j" using kj by (rule powr2_leI)
  with lo have lo': "2 powr of_int k \<le> of_int (round_half_even (x / u)) * u" by linarith
  obtain y where y: "round64 x = Num y" "0 \<le> y" "y \<le> 2 powr of_int 1023"
    using round64_bounded [of x 1023] assms(2) xp by auto
  have "round64 x = Num (of_int (round_half_even (x / u)) * u)"
  proof (cases "2 ^ 1024 \<le> of_int (round_half_even (x / u)) * u")
    case True
    then have "round64 x = PosInf" using xp x0 by (simp add: round64_def Let_def e u_def)
    with y show ?thesis by simp
  next
    case False
    then show ?thesis using xp x0 by (simp add: round64_def Let_def e u_def)
  qed
  with lo' show ?thesis by simp
qed

lemma round64_bracket:
  assumes "2 powr of_int k \<le> x" "x \<le> 2 powr of_int m" "- 1022 \<le> k" "m \<le> 1023"
  shows "\<exists>y. round64 x = Num y \<and> 2 powr of_int k \<le> y \<and> y \<le> 2 powr of_int m"
proof -
  have "(0::real) < 2 powr of_int k" by simp
  with assms(1) have xp: "0 \<le> x" by linarith
  have "(2::real) powr of_int k \<le> 2 powr of_int m" using assms(1,2) by linarith
  then have km: "k \<le> m" by (rule powr2_leD)
  obtain y where y: "round64 x = Num y" "y \<le> 2 powr of_int m"
    using round64_bounded [OF xp assms(2)] km assms(3,4) by auto
  have "(2::real) powr of_int m \<le> 2 powr of_int 1023" using assms(4) by (rule powr2_leI)
  with assms(2) have "x \<le> 2 powr of_int 1023" by linarith
  from round64_lower [OF assms(1) this assms(3)] y show ?thesis by auto
qed

lemma round64_abs_bounded:
  assumes "\<bar>x\<bar> \<le> 2 powr of_int k" "- 1022 \<le> k" "k \<le> 1023"
  shows "\<exists>y. round64 x = Num y \<and> \<bar>y\<bar> \<le> 2 powr of_int k"
proof (cases "0 \<le> x")
  case True
  then show ?thesis using round64_bounded [of x k] assms by auto
next
  case False
  then obtain y where "round64 (- x) = Num y" "0 \<le> y" "y \<le> 2 powr of_int k"
    using round64_bounded [of "- x" k] assms by auto
  then show ?thesis using round64_minus [of "- x"] by auto
qed

lemma round64_abs_lower:
  assumes "2 powr of_int k \<le> \<bar>x\<bar>" "\<bar>x\<bar> \<le> 2 powr of_int 1023" "- 1022 \<le> k"
  shows "\<exists>y. round64 x = Num y \<and> 2 powr of_int k \<le> \<bar>y\<bar>"
proof (cases "0 \<le> x")
  case True
  then show ?thesis using round64_lower [of k x] assms by auto
next
  case False
  then obtain y where "round64 (- x) = Num y" "2 powr of_int k \<le> y"
    using round64_lower [of k "- x"] assms by auto
  then show ?thesis using round64_minus [of "- x"] by auto
qed

lemma round64_abs_err:
  assumes "\<bar>x\<bar> \<le> 16"
  shows "\<exists>y. round64 x = Num y \<and> \<bar>y - x\<bar> \<le> 1 / 2 ^ 49"
proof (cases "x = 0")
  case True
  then show ?thesis by (simp add: round64_zero)
next
  case False
  define j where "j = \<lfloor>log 2 \<bar>x\<bar>\<rfloor>"
  have b: "2 powr of_int j \<le> \<bar>x\<bar>" "\<bar>x\<bar> < 2 powr of_int (j + 1)"
    unfolding j_def using floor_log2_bounds [OF False] by simp_all
  have "(2::real) powr of_int 4 = 16" by (simp add: powr_real_of_int)
  with b(1) assms have "(2::real) powr of_int j \<le> 2 powr of_int 4" by linarith
  then have j4: "j \<le> 4" by (rule powr2_leD)
  define e where "e = max j (- 1022) - 52"
  have e: "f64_exponent x = e" by (simp add: f64_exponent_def j_def e_def)
  have e48: "e \<le> - 48" using j4 by (simp add: e_def)
  define u where "u = (2::real) powr of_int e"
  have u0: "0 < u" by (simp add: u_def)
  have "u \<le> 2 powr of_int (- 48)" unfolding u_def using e48 by (rule powr2_leI)
  also have "\<dots> = 1 / 2 ^ 48" using powr_real_of_int [of 2 "- 48"] by (simp add: field_simps)
  finally have u48: "u \<le> 1 / 2 ^ 48" .
  define r where "r = (of_int (round_half_even (\<bar>x\<bar> / u)) :: real)"
  have "\<bar>r - \<bar>x\<bar> / u\<bar> \<le> 1 / 2" unfolding r_def by (rule rhe_err)
  then have "\<bar>r - \<bar>x\<bar> / u\<bar> * u \<le> 1 / 2 * u" using u0 by (simp only: mult_le_cancel_right_pos)
  moreover have "\<bar>r - \<bar>x\<bar> / u\<bar> * u = \<bar>r * u - \<bar>x\<bar>\<bar>"
  proof -
    have "\<bar>r - \<bar>x\<bar> / u\<bar> * u = \<bar>(r - \<bar>x\<bar> / u) * u\<bar>" using u0 by (simp add: abs_mult)
    also have "(r - \<bar>x\<bar> / u) * u = r * u - \<bar>x\<bar>" using u0 by (simp add: field_simps)
    finally show ?thesis .
  qed
  ultimately have err: "\<bar>r * u - \<bar>x\<bar>\<bar> \<le> 1 / 2 ^ 49" using u48 by simp
  note err
  moreover have "(1::real) / 2 ^ 49 \<le> 1" by simp
  ultimately have "r * u \<le> 17" using assms by linarith
  then have small: "\<not> 2 ^ 1024 \<le> r * u" by simp
  have "\<bar>sgn x * (r * u) - x\<bar> = \<bar>r * u - \<bar>x\<bar>\<bar>"
    using False by (cases "0 < x") (simp_all add: sgn_if abs_if)
  then show ?thesis
    using False small err by (simp add: round64_def Let_def e u_def [symmetric] r_def [symmetric])
qed

lemma is_float64_simps:
  "is_float64 0" "is_float64 1" "is_float64 (- 1)" "is_float64 2" "is_float64 4"
  using round64_int [of 0] round64_int [of 1] round64_int [of "- 1"] round64_int [of 2]
    round64_int [of 4]
  by (simp_all add: is_float64_def)

lemma round64_small_ints [simp]:
  "round64 0 = Num 0" "round64 1 = Num 1" "round64 (- 1) = Num (- 1)" "round64 2 = Num 2"
  "round64 4 = Num 4"
  using is_float64_simps by (simp_all add: is_float64_def)

section \<open>The order of the output conversions\<close>



section \<open>The length check\<close>

text \<open>
  Claim C2. The claim says that the length check is evaluated against the array after
  reshaping and broadcasting. The source passes \<^verbatim>\<open>arr\<close>, the argument of the call, to
  \<^verbatim>\<open>check_length\<close>, not \<^verbatim>\<open>arr_out\<close>. For the input \<^verbatim>\<open>[[1, 2, 3]]\<close> with \<^verbatim>\<open>reshape_to=-1\<close> the
  result has length 3; asking for that length with \<^verbatim>\<open>must_have_length=3\<close> raises a value
  error, and asking for the length 1 of the input is accepted. Likewise the scalar
  \<^verbatim>\<open>5\<close> broadcast to \<^verbatim>\<open>(3,)\<close> is refused with \<^verbatim>\<open>must_have_length=3\<close>.
\<close>

theorem length_check_reads_original_input:
  "validate_array (PList [PList [PNumber DInt (Num 1), PNumber DInt (Num 2), PNumber DInt (Num 3)]])
     (va_defaults\<lparr>reshape_to := Some (SInt (-1))\<rparr>)
     = Inr (PArray \<lparr>shape = [3], dtype = DInt, data = [Num 1, Num 2, Num 3]\<rparr>) \<and>
   validate_array (PList [PList [PNumber DInt (Num 1), PNumber DInt (Num 2), PNumber DInt (Num 3)]])
     (va_defaults\<lparr>reshape_to := Some (SInt (-1)), must_have_length := Some [3]\<rparr>)
     = Inl (ValueError ''Array has an incorrect length.'') \<and>
   validate_array (PList [PList [PNumber DInt (Num 1), PNumber DInt (Num 2), PNumber DInt (Num 3)]])
     (va_defaults\<lparr>reshape_to := Some (SInt (-1)), must_have_length := Some [1]\<rparr>)
     = Inr (PArray \<lparr>shape = [3], dtype = DInt, data = [Num 1, Num 2, Num 3]\<rparr>) \<and>
   validate_array (PNumber DInt (Num 5)) (va_defaults\<lparr>broadcast_to := Some (STuple [3])\<rparr>)
     = Inr (PArray \<lparr>shape = [3], dtype = DInt, data = [Num 5, Num 5, Num 5]\<rparr>) \<and>
   validate_array (PNumber DInt (Num 5))
     (va_defaults\<lparr>broadcast_to := Some (STuple [3]), must_have_length := Some [3]\<rparr>)
     = Inl (ValueError ''Array has an incorrect length.'')"
  by (simp add: eval_defs numeral_3_eq_3)

theorem length_check_reads_original_input_witness:
  "is_value_error
     (validate_array (PList [PList [PNumber DInt (Num 1), PNumber DInt (Num 2), PNumber DInt (Num 3)]])
        (va_defaults\<lparr>reshape_to := Some (SInt (-1)), must_have_length := Some [3]\<rparr>))"
  using length_check_reads_original_input by simp

section \<open>The shape check and the reshape\<close>

lemma va_check_type_cases:
  "va_check_type a A = Inr () \<or> (\<exists>m. va_check_type a A = Inl (TypeError m))"
  by (simp add: va_check_type_def check_real_def check_subdtype_def)

lemma check_subdtype_cases:
  "check_subdtype d cs nm = Inr () \<or> (\<exists>m. check_subdtype d cs nm = Inl (TypeError m))"
  by (simp add: check_subdtype_def)

lemma check_shape_cases:
  "check_shape a S nm = Inr () \<or> check_shape a S nm = Inl (ValueError (nm @ '' has an incorrect shape.''))"
  by (simp add: check_shape_def)

lemma va_check_type_reshape_to: "va_check_type a (A\<lparr>reshape_to := r\<rparr>) = va_check_type a A"
  by (simp add: va_check_type_def cong: va_congs)

text \<open>
  Claim C1 (amended). The data-type checks (\<^verbatim>\<open>must_be_real\<close> or numeric, and
  \<^verbatim>\<open>must_have_dtype\<close>) come first. For an input whose original shape is not among the
  allowed shapes, \<^verbatim>\<open>validate_array\<close> raises whatever \<^verbatim>\<open>reshape_to\<close> is: a value error
  when the input passes the data-type checks, a type error when it fails one of them. The
  requested reshape has no influence on the outcome.
\<close>

theorem shape_check_precedes_reshape:
  assumes "cast_to_ndarray arr (as_any A) (copy A) = Inr a"
      and "must_have_shape A = Some S"
      and "check_shape a S (name A) \<noteq> Inr ()"
  shows "(if dtype_checks_pass a A then is_value_error (validate_array arr A)
          else is_type_error (validate_array arr A)) \<and>
         validate_array arr (A\<lparr>reshape_to := r\<rparr>) = validate_array arr A"
proof -
  have sh: "check_shape a S (name A) = Inl (ValueError (name A @ '' has an incorrect shape.''))"
    using assms(3) check_shape_cases [of a S "name A"] by simp
  note vt = va_check_type_reshape_to
  consider (real) m where "va_check_type a A = Inl (TypeError m)"
    | (dt) cs m where "va_check_type a A = Inr ()" "must_have_dtype A = Some cs"
        "check_subdtype (dtype a) cs (name A) = Inl (TypeError m)"
    | (ok) "dtype_checks_pass a A"
    using va_check_type_cases [of a A] check_subdtype_cases [of "dtype a" _ "name A"]
    by (cases "must_have_dtype A") (fastforce simp: dtype_checks_pass_def)+
  then show ?thesis
  proof cases
    case real
    then show ?thesis
      using assms(1) by (simp add: validate_array_def dtype_checks_pass_def vt)
  next
    case dt
    then show ?thesis
      using assms(1) by (simp add: validate_array_def dtype_checks_pass_def vt)
  next
    case ok
    then show ?thesis
      using assms(1,2) sh
      by (simp add: validate_array_def dtype_checks_pass_def vt split: option.splits)
  qed
qed

theorem shape_check_precedes_reshape_witness:
  "cast_to_ndarray (PList [PList [PNumber DInt (Num 1), PNumber DInt (Num 2), PNumber DInt (Num 3)]]) True False
     = Inr \<lparr>shape = [1, 3], dtype = DInt, data = [Num 1, Num 2, Num 3]\<rparr> \<and>
   check_shape \<lparr>shape = [1, 3], dtype = DInt, data = [Num 1, Num 2, Num 3]\<rparr> (Shape (SInt 3)) ''Array''
     \<noteq> Inr () \<and>
   dtype_checks_pass \<lparr>shape = [1, 3], dtype = DInt, data = [Num 1, Num 2, Num 3]\<rparr>
     (va_defaults\<lparr>must_have_shape := Some (Shape (SInt 3)), reshape_to := Some (SInt (-1))\<rparr>) \<and>
   is_value_error
     (validate_array (PList [PList [PNumber DInt (Num 1), PNumber DInt (Num 2), PNumber DInt (Num 3)]])
        (va_defaults\<lparr>must_have_shape := Some (Shape (SInt 3)), reshape_to := Some (SInt (-1))\<rparr>)) \<and>
   validate_array (PList [PList [PNumber DInt (Num 1), PNumber DInt (Num 2), PNumber DInt (Num 3)]])
        (va_defaults\<lparr>must_have_shape := Some (Shape (SInt 3)), reshape_to := None\<rparr>)
     = validate_array (PList [PList [PNumber DInt (Num 1), PNumber DInt (Num 2), PNumber DInt (Num 3)]])
        (va_defaults\<lparr>must_have_shape := Some (Shape (SInt 3)), reshape_to := Some (SInt (-1))\<rparr>)"
  using shape_check_precedes_reshape
    [of "PList [PList [PNumber DInt (Num 1), PNumber DInt (Num 2), PNumber DInt (Num 3)]]"
        "va_defaults\<lparr>must_have_shape := Some (Shape (SInt 3)), reshape_to := Some (SInt (-1))\<rparr>"
        "\<lparr>shape = [1, 3], dtype = DInt, data = [Num 1, Num 2, Num 3]\<rparr>" "Shape (SInt 3)" None]
  by (simp add: eval_defs dtype_checks_pass_def)

text \<open>
  The claim as stated promises a value error for every input. An integer array of shape
  \<open>(1, 3)\<close> with \<^verbatim>\<open>must_have_dtype=np.floating\<close>, \<^verbatim>\<open>must_have_shape=3\<close> and
  \<^verbatim>\<open>reshape_to=-1\<close> raises a type error, and so does a \<^verbatim>\<open>bool\<close> array of that shape with
  the default \<^verbatim>\<open>must_be_real=True\<close>.
\<close>

theorem shape_check_precedes_reshape_counterexample:
  "check_shape \<lparr>shape = [1, 3], dtype = DInt, data = [Num 1, Num 2, Num 3]\<rparr> (Shape (SInt 3)) ''Array''
     \<noteq> Inr () \<and>
   validate_array (PList [PList [PNumber DInt (Num 1), PNumber DInt (Num 2), PNumber DInt (Num 3)]])
     (va_defaults\<lparr>must_have_dtype := Some [CFloating], must_have_shape := Some (Shape (SInt 3)),
                   reshape_to := Some (SInt (-1))\<rparr>)
     = Inl (TypeError ''Array has an incorrect dtype.'') \<and>
   \<not> is_value_error
     (validate_array (PList [PList [PNumber DInt (Num 1), PNumber DInt (Num 2), PNumber DInt (Num 3)]])
        (va_defaults\<lparr>must_have_dtype := Some [CFloating], must_have_shape := Some (Shape (SInt 3)),
                      reshape_to := Some (SInt (-1))\<rparr>)) \<and>
   validate_array (PList [PList [PNumber DBool (Num 1), PNumber DBool (Num 0), PNumber DBool (Num 1)]])
     (va_defaults\<lparr>must_have_shape := Some (Shape (SInt 3)), reshape_to := Some (SInt (-1))\<rparr>)
     = Inl (TypeError ''Array must have real numbers.'') \<and>
   \<not> is_value_error
     (validate_array (PList [PList [PNumber DBool (Num 1), PNumber DBool (Num 0), PNumber DBool (Num 1)]])
        (va_defaults\<lparr>must_have_shape := Some (Shape (SInt 3)), reshape_to := Some (SInt (-1))\<rparr>))"
  by (simp add: eval_defs)

section \<open>Idempotence\<close>

lemma py_len_seq_shape:
  "seq_shape (map obj_shape xs) = Some sh \<Longrightarrow> (case sh of [] \<Rightarrow> None | n # ns \<Rightarrow> Some n) = Some (length xs)"
  by (cases xs) (auto split: option.splits if_splits)

lemma py_len_cast:
  "cast_to_ndarray arr x y = Inr a \<Longrightarrow> py_len (PArray a) = py_len arr"
  by (cases arr) (auto simp: cast_to_ndarray_def py_len_seq_shape split: option.splits)

lemma cast_array: "cast_to_ndarray (PArray a) x y = Inr a"
  by (simp add: cast_to_ndarray_def)

lemma cast_shape_data:
  "cast_to_ndarray arr x y = Inr a \<Longrightarrow> obj_shape arr = Some (shape a) \<and> obj_data arr = data a"
  by (cases arr) (auto simp: cast_to_ndarray_def split: option.splits)

lemma check_length_cast:
  "cast_to_ndarray arr x y = Inr a \<Longrightarrow> check_length (PArray a) e mn mx sc nm = check_length arr e mn mx sc nm"
  using py_len_cast [of arr x y a] by (simp add: check_length_def del: py_len.simps)

text \<open>
  Claim C9. When no transform is requested (no reshape, no broadcast, no cast of the
  data type, no conversion to a list or tuple) and the input satisfies every requested
  constraint, \<^verbatim>\<open>validate_array\<close> returns the array of the input: the same shape and the
  same elements. Validating that result again returns it unchanged.
\<close>

theorem validation_is_idempotent:
  assumes cast: "cast_to_ndarray arr (as_any A) (copy A) = Inr a"
      and flags: "reshape_to A = None" "broadcast_to A = None" "dtype_out A = None"
                 "\<not> to_list A" "\<not> to_tuple A"
      and types: "dtype_checks_pass a A"
      and shp: "case must_have_shape A of None \<Rightarrow> True | Some S \<Rightarrow> check_shape a S (name A) = Inr ()"
      and len: "check_length arr (must_have_length A) (must_have_min_length A)
                  (must_have_max_length A) True (name A) = Inr ()"
      and vals: "va_check_values a A = Inr ()"
  shows "validate_array arr A = Inr (PArray a) \<and>
         obj_shape arr = Some (shape a) \<and> obj_data arr = data a \<and>
         validate_array (PArray a) A = Inr (PArray a)"
proof -
  have 1: "validate_array arr A = Inr (PArray a)"
    using assms
    by (simp add: validate_array_def dtype_checks_pass_def split: option.splits)
  have 2: "validate_array (PArray a) A = Inr (PArray a)"
    using assms check_length_cast [OF cast]
    by (simp add: validate_array_def dtype_checks_pass_def cast_array split: option.splits)
  show ?thesis using 1 2 cast_shape_data [OF cast] by simp
qed

theorem validation_is_idempotent_witness:
  "validate_array (PList [PNumber DInt (Num 1), PNumber DInt (Num 2), PNumber DInt (Num 3)])
     (va_defaults\<lparr>must_have_shape := Some (Shape (SInt 3)), must_be_sorted := SortedFlag True,
                   must_have_length := Some [3], must_be_nonnegative := True\<rparr>)
     = Inr (PArray \<lparr>shape = [3], dtype = DInt, data = [Num 1, Num 2, Num 3]\<rparr>) \<and>
   validate_array (PArray \<lparr>shape = [3], dtype = DInt, data = [Num 1, Num 2, Num 3]\<rparr>)
     (va_defaults\<lparr>must_have_shape := Some (Shape (SInt 3)), must_be_sorted := SortedFlag True,
                   must_have_length := Some [3], must_be_nonnegative := True\<rparr>)
     = Inr (PArray \<lparr>shape = [3], dtype = DInt, data = [Num 1, Num 2, Num 3]\<rparr>)"
  using validation_is_idempotent
    [of "PList [PNumber DInt (Num 1), PNumber DInt (Num 2), PNumber DInt (Num 3)]"
        "va_defaults\<lparr>must_have_shape := Some (Shape (SInt 3)), must_be_sorted := SortedFlag True,
                   must_have_length := Some [3], must_be_nonnegative := True\<rparr>"
        "\<lparr>shape = [3], dtype = DInt, data = [Num 1, Num 2, Num 3]\<rparr>"]
  by (simp add: eval_defs dtype_checks_pass_def sorted_eval)

section \<open>The data range wrapper\<close>

lemma data_range_eval:
  "validate_data_range (PList [PNumber d1 x, PNumber d2 y]) no_kwargs =
     (if promote [d1, d2] = DBool then Inl (TypeError ''Data Range must have real numbers.'')
      else if elem_le (convert_elem d1 (promote [d1, d2]) x) (convert_elem d2 (promote [d1, d2]) y)
      then Inr (PTuple [PNumber (promote [d1, d2]) (convert_elem d1 (promote [d1, d2]) x),
                        PNumber (promote [d1, d2]) (convert_elem d2 (promote [d1, d2]) y)])
      else Inl (ValueError ''Data Range must be sorted.''))"
  by (cases d1; cases d2)
     (simp_all add: validate_data_range_def wrapper_defs eval_defs sorted_eval)

lemma stored_exact:
  "d1 = d2 \<or> (is_float64 a \<and> is_float64 b) \<Longrightarrow>
   convert_elem d1 (promote [d1, d2]) (Num a) = Num a \<and>
   convert_elem d2 (promote [d1, d2]) (Num b) = Num b"
  by (cases d1; cases d2) (auto simp: promote_def is_float64_def)




section \<open>The unsigned-integer wrapper\<close>

text \<open>
  Claim C3. The claim, and the docstring of \<^verbatim>\<open>validate_arrayN_uintlike\<close> (``Validated 1D
  array with non-negative integers''), promise the floor of every non-negative
  integer-valued float. \<open>2 ^ 63\<close> is such a float: it passes \<^verbatim>\<open>check_nonnegative\<close> and
  \<^verbatim>\<open>check_integerlike\<close>, its floor is itself, and \<^verbatim>\<open>validate_arrayN_uintlike([2.0**63])\<close>
  returns \<open>- 2 ^ 63\<close>, because \<^verbatim>\<open>astype(int)\<close> is applied with no check of the range.
\<close>

theorem validate_arrayN_uintlike_wraps:
  "elem_le (Num 0) (Num (2 ^ 63)) \<and> equals_floor (Num (2 ^ 63)) \<and>
   validate_arrayN_uintlike (PList [PNumber DFloat (Num (2 ^ 63))]) True no_kwargs
     = Inr (PArray \<lparr>shape = [1], dtype = DInt, data = [Num (- (2 ^ 63))]\<rparr>) \<and>
   np_floor (Num (2 ^ 63)) = Num (2 ^ 63)"
proof -
  have fl: "\<lfloor>9223372036854775808 :: real\<rfloor> = 9223372036854775808"
    by (metis floor_numeral)
  have il: "equals_floor (Num (2 ^ 63))"
    by (simp add: fl)
  have cv: "float_to_int64 (Num (2 ^ 63)) = Num (- (2 ^ 63))"
    by (simp add: trunc_to_zero_def int64_min_def int64_max_def fl)
  have "validate_arrayN_uintlike (PList [PNumber DFloat (Num (2 ^ 63))]) True no_kwargs
     = Inr (PArray \<lparr>shape = [1], dtype = DInt, data = [Num (- (2 ^ 63))]\<rparr>)"
    using il cv
    by (simp add: validate_arrayN_uintlike_def validate_arrayN_def wrapper_defs eval_defs
          check_nonnegative_def check_integerlike_def del: equals_floor.simps float_to_int64.simps)
  then show ?thesis using il by (simp add: fl)
qed

theorem validate_arrayN_uintlike_wraps_witness:
  "validate_arrayN_uintlike (PList [PNumber DFloat (Num (2 ^ 63))]) True no_kwargs
     \<noteq> Inr (PArray \<lparr>shape = [1], dtype = DInt, data = [np_floor (Num (2 ^ 63))]\<rparr>) \<and>
   is_float64 (2 ^ 63)"
  using validate_arrayN_uintlike_wraps round64_pow2 [of 63] by (simp add: is_float64_def)

section \<open>Overriding a pinned constraint\<close>

lemma sdkm_cases:
  "set_default_kwarg_mandatory str_of fname field key d =
     (if field \<noteq> None \<and> field \<noteq> Some d
      then Inl (ValueError (override_message key fname (str_of d)))
      else Inr (Some d))"
  by (cases field) (auto simp: set_default_kwarg_mandatory_def)

lemma override_message_names:
  "\<exists>pre mid post. override_message key fname dstr = pre @ key @ mid @ fname @ post"
  unfolding override_message_def by (metis append.assoc)

lemma arrayN_override:
  "first_override (pinned_arrayN reshape kw) = Some (key, fname, dstr) \<Longrightarrow>
   validate_arrayN arr reshape kw = Inl (ValueError (override_message key fname dstr))"
  by (cases reshape)
     (auto simp: validate_arrayN_def pinned_arrayN_def sdkm_cases pin_def split: if_splits)

lemma arrayN_pins_update:
  "pinned_arrayN reshape (kw\<lparr>kw_must_be_nonnegative := x\<rparr>) = pinned_arrayN reshape kw"
  "pinned_arrayN reshape (kw\<lparr>kw_must_be_integer_like := y\<rparr>) = pinned_arrayN reshape kw"
  "pinned_arrayN reshape (kw\<lparr>kw_dtype_out := z\<rparr>) = pinned_arrayN reshape kw"
  by (simp_all add: pinned_arrayN_def pin_def)




section \<open>The 4x4 transform validator\<close>

lemma np_eye_4:
  "np_eye 4 = \<lparr>shape = [4, 4], dtype = DFloat,
      data = [Num 1, Num 0, Num 0, Num 0, Num 0, Num 1, Num 0, Num 0,
              Num 0, Num 0, Num 1, Num 0, Num 0, Num 0, Num 0, Num 1]\<rparr>"
  by (simp add: np_eye_def upt_conv_Cons)

lemma transform_3x3:
  assumes "cast_to_ndarray arr True False
             = Inr \<lparr>shape = [3, 3], dtype = d,
                    data = [Num m0, Num m1, Num m2, Num m3, Num m4, Num m5, Num m6, Num m7, Num m8]\<rparr>"
      and "d \<noteq> DBool"
  shows "validate_transform4x4 (ArrayLike arr) nm
           = Inr \<lparr>shape = [4, 4], dtype = DFloat,
                  data = [convert_elem d DFloat (Num m0), convert_elem d DFloat (Num m1),
                          convert_elem d DFloat (Num m2), Num 0,
                          convert_elem d DFloat (Num m3), convert_elem d DFloat (Num m4),
                          convert_elem d DFloat (Num m5), Num 0,
                          convert_elem d DFloat (Num m6), convert_elem d DFloat (Num m7),
                          convert_elem d DFloat (Num m8), Num 0,
                          Num 0, Num 0, Num 0, Num 1]\<rparr>"
proof -
  let ?a = "\<lparr>shape = [3, 3], dtype = d,
             data = [Num m0, Num m1, Num m2, Num m3, Num m4, Num m5, Num m6, Num m7, Num m8]\<rparr>"
  have va: "validate_array arr
              (va_defaults\<lparr>must_have_shape := Some (Shapes [STuple [3, 3], STuple [4, 4]]),
                            must_be_finite := True, name := nm\<rparr>) = Inr (PArray ?a)"
    using assms
    by (cases d)
       (simp_all add: validate_array_def va_defaults_def va_check_type_def check_real_def
          check_shape_def allowed_shapes_def shape_is_allowed_def as_dims_def
          va_check_values_def check_finite_def)
  have blk: "set_block3 (np_eye 4) ?a
           = \<lparr>shape = [4, 4], dtype = DFloat,
                  data = [convert_elem d DFloat (Num m0), convert_elem d DFloat (Num m1),
                          convert_elem d DFloat (Num m2), Num 0,
                          convert_elem d DFloat (Num m3), convert_elem d DFloat (Num m4),
                          convert_elem d DFloat (Num m5), Num 0,
                          convert_elem d DFloat (Num m6), convert_elem d DFloat (Num m7),
                          convert_elem d DFloat (Num m8), Num 0,
                          Num 0, Num 0, Num 0, Num 1]\<rparr>"
    by (simp add: np_eye_4 set_block3_def np_astype_def row3_def upt_conv_Cons
          del: convert_elem.simps)
  show ?thesis
    by (simp add: validate_transform4x4_def va as_array_PArray blk del: convert_elem.simps)
qed

lemma transform_bool:
  assumes "cast_to_ndarray arr True False = Inr a" and "dtype a = DBool"
  shows "is_type_error (validate_transform4x4 (ArrayLike arr) nm)"
  using assms
  by (simp add: validate_transform4x4_def validate_array_def va_defaults_def va_check_type_def
        check_real_def)

lemma transform_bad_shape:
  assumes "obj_shape arr \<noteq> Some [3, 3]" and "obj_shape arr \<noteq> Some [4, 4]"
  shows "is_type_error (validate_transform4x4 (ArrayLike arr) nm)"
proof (cases "cast_to_ndarray arr True False")
  case (Inl e)
  then have "\<exists>m. e = ValueError m"
    by (cases arr) (auto simp: cast_to_ndarray_def split: option.splits)
  with Inl show ?thesis
    by (auto simp: validate_transform4x4_def validate_array_def va_defaults_def)
next
  case (Inr a)
  then have "obj_shape arr = Some (shape a)"
    by (cases arr) (auto simp: cast_to_ndarray_def split: option.splits)
  with assms have ns: "shape a \<noteq> [3, 3]" "shape a \<noteq> [4, 4]" by simp_all
  have bad: "check_shape a (Shapes [STuple [3, 3], STuple [4, 4]]) nm
               = Inl (ValueError (nm @ '' has an incorrect shape.''))"
  proof -
    have "\<not> shape_is_allowed (shape a) [3, 3]"
      using ns(1) by (auto simp: shape_is_allowed_def list_all2_Cons2)
    moreover have "\<not> shape_is_allowed (shape a) [4, 4]"
      using ns(2) by (auto simp: shape_is_allowed_def list_all2_Cons2)
    ultimately show ?thesis
      by (simp add: check_shape_def allowed_shapes_def as_dims_def)
  qed
  show ?thesis
    using Inr bad check_real_cases [of a nm]
    by (auto simp: validate_transform4x4_def validate_array_def va_defaults_def va_check_type_def)
qed

lemma to_float64_exact:
  "d = DFloat \<or> is_float64 x \<Longrightarrow> convert_elem d DFloat (Num x) = Num x"
  by (cases d) (auto simp: is_float64_def)

text \<open>
  Claim C7 (amended). Given an array-like of shape \<open>(3, 3)\<close> with finite elements of
  integer or floating type, \<^verbatim>\<open>validate_transform4x4\<close> returns the 4x4 identity matrix
  with its upper-left 3x3 block overwritten by the elements of the input converted to
  float64 (a float, and an integer that is a float64 value, is kept as it is); given one
  of type \<^verbatim>\<open>bool\<close> it raises a type error. Given an array-like whose shape is neither
  \<open>(3, 3)\<close> nor \<open>(4, 4)\<close> (one that has no rectangular shape included), it raises a
  type error.
\<close>

theorem validate_transform4x4_embeds:
  "(cast_to_ndarray arr True False
      = Inr \<lparr>shape = [3, 3], dtype = d,
             data = [Num m0, Num m1, Num m2, Num m3, Num m4, Num m5, Num m6, Num m7, Num m8]\<rparr>
    \<longrightarrow>
    (d \<noteq> DBool \<longrightarrow>
       validate_transform4x4 (ArrayLike arr) nm
         = Inr \<lparr>shape = [4, 4], dtype = DFloat,
                data = [convert_elem d DFloat (Num m0), convert_elem d DFloat (Num m1),
                        convert_elem d DFloat (Num m2), Num 0,
                        convert_elem d DFloat (Num m3), convert_elem d DFloat (Num m4),
                        convert_elem d DFloat (Num m5), Num 0,
                        convert_elem d DFloat (Num m6), convert_elem d DFloat (Num m7),
                        convert_elem d DFloat (Num m8), Num 0,
                        Num 0, Num 0, Num 0, Num 1]\<rparr>) \<and>
    (d = DBool \<longrightarrow> is_type_error (validate_transform4x4 (ArrayLike arr) nm))) \<and>
   (d' = DFloat \<or> is_float64 x \<longrightarrow> convert_elem d' DFloat (Num x) = Num x) \<and>
   (obj_shape arr' \<noteq> Some [3, 3] \<and> obj_shape arr' \<noteq> Some [4, 4] \<longrightarrow>
    is_type_error (validate_transform4x4 (ArrayLike arr') nm'))"
  using transform_3x3 [of arr d m0 m1 m2 m3 m4 m5 m6 m7 m8 nm]
    transform_bool [of arr _ nm] transform_bad_shape [of arr' nm'] to_float64_exact [of d' x]
  by (intro conjI impI) simp_all

theorem validate_transform4x4_embeds_witness:
  "validate_transform4x4
     (ArrayLike (PList [PList [PNumber DInt (Num 1), PNumber DInt (Num 2), PNumber DInt (Num 4)],
                        PList [PNumber DInt (Num 0), PNumber DInt (Num 1), PNumber DInt (Num 2)],
                        PList [PNumber DInt (Num 4), PNumber DInt (Num 0), PNumber DInt (Num 1)]]))
     ''Transform''
     = Inr \<lparr>shape = [4, 4], dtype = DFloat,
            data = [Num 1, Num 2, Num 4, Num 0, Num 0, Num 1, Num 2, Num 0,
                    Num 4, Num 0, Num 1, Num 0, Num 0, Num 0, Num 0, Num 1]\<rparr> \<and>
   obj_shape (PList [PNumber DFloat (Num 1), PNumber DFloat (Num 2)]) = Some [2] \<and>
   is_type_error
     (validate_transform4x4 (ArrayLike (PList [PNumber DFloat (Num 1), PNumber DFloat (Num 2)]))
        ''Transform'')"
  using validate_transform4x4_embeds
    [where arr = "PList [PList [PNumber DInt (Num 1), PNumber DInt (Num 2), PNumber DInt (Num 4)],
                PList [PNumber DInt (Num 0), PNumber DInt (Num 1), PNumber DInt (Num 2)],
                PList [PNumber DInt (Num 4), PNumber DInt (Num 0), PNumber DInt (Num 1)]]"
       and d = DInt and ?m0.0 = 1 and ?m1.0 = 2 and ?m2.0 = 4 and ?m3.0 = 0 and ?m4.0 = 1
       and ?m5.0 = 2 and ?m6.0 = 4 and ?m7.0 = 0 and ?m8.0 = 1 and nm = "''Transform''"
       and arr' = "PList [PNumber DFloat (Num 1), PNumber DFloat (Num 2)]"
       and nm' = "''Transform''" and d' = DFloat and x = 0]
  by (simp add: cast_to_ndarray_def promote_def obj_data_def)

text \<open>
  The claim as stated promises the embedding for every finite \<open>(3, 3)\<close> array. The
  \<^verbatim>\<open>bool\<close> identity matrix is one, and it raises a type error, since
  \<^verbatim>\<open>validate_array\<close> requires real numbers by default.
\<close>

theorem validate_transform4x4_embeds_counterexample:
  "cast_to_ndarray
     (PList [PList [PNumber DBool (Num 1), PNumber DBool (Num 0), PNumber DBool (Num 0)],
             PList [PNumber DBool (Num 0), PNumber DBool (Num 1), PNumber DBool (Num 0)],
             PList [PNumber DBool (Num 0), PNumber DBool (Num 0), PNumber DBool (Num 1)]]) True False
     = Inr \<lparr>shape = [3, 3], dtype = DBool,
            data = [Num 1, Num 0, Num 0, Num 0, Num 1, Num 0, Num 0, Num 0, Num 1]\<rparr> \<and>
   list_all is_finite [Num 1, Num 0, Num 0, Num 0, Num 1, Num 0, Num 0, Num 0, Num 1] \<and>
   validate_transform4x4
     (ArrayLike (PList [PList [PNumber DBool (Num 1), PNumber DBool (Num 0), PNumber DBool (Num 0)],
                        PList [PNumber DBool (Num 0), PNumber DBool (Num 1), PNumber DBool (Num 0)],
                        PList [PNumber DBool (Num 0), PNumber DBool (Num 0), PNumber DBool (Num 1)]]))
     ''Transform''
     = Inl (TypeError ''Transform must have real numbers.'')"
  by (simp add: validate_transform4x4_def eval_defs)

section \<open>The axes validator\<close>

subsection \<open>Assembly of the frame\<close>

lemma validate_array3_vec3:
  assumes "d \<noteq> DBool"
  shows "validate_array3 (vec3 d x y z) True False (no_kwargs\<lparr>kw_name := Some n\<rparr>)
           = Inr (PArray \<lparr>shape = [3], dtype = d, data = [Num x, Num y, Num z]\<rparr>)"
  using assms
  by (cases d)
     (simp_all add: validate_array3_def vec3_def wrapper_defs eval_defs)

lemma validate_array3_bool:
  "validate_array3 (vec3 DBool x y z) True False (no_kwargs\<lparr>kw_name := Some n\<rparr>)
           = Inl (TypeError (n @ '' must have real numbers.''))"
  by (simp_all add: validate_array3_def vec3_def wrapper_defs eval_defs)

lemma replicate_9: "replicate 9 x = [x, x, x, x, x, x, x, x, x]"
  by (simp add: numeral_eq_Suc)

lemma row_of_explicit:
  "row_of d x y z
     = [convert_elem d DFloat (Num x), convert_elem d DFloat (Num y), convert_elem d DFloat (Num z)]"
  by (simp add: row_of_def)

lemma set_row3_explicit:
  "set_row3 \<lparr>shape = s, dtype = DFloat, data = [a0, a1, a2, a3, a4, a5, a6, a7, a8]\<rparr> 0
             \<lparr>shape = [3], dtype = d, data = [Num x, Num y, Num z]\<rparr>
           = Inr \<lparr>shape = s, dtype = DFloat, data = row_of d x y z @ [a3, a4, a5, a6, a7, a8]\<rparr>"
  "set_row3 \<lparr>shape = s, dtype = DFloat, data = [a0, a1, a2, a3, a4, a5, a6, a7, a8]\<rparr> (Suc 0)
             \<lparr>shape = [3], dtype = d, data = [Num x, Num y, Num z]\<rparr>
           = Inr \<lparr>shape = s, dtype = DFloat, data = [a0, a1, a2] @ row_of d x y z @ [a6, a7, a8]\<rparr>"
  "set_row3 \<lparr>shape = s, dtype = DFloat, data = [a0, a1, a2, a3, a4, a5, a6, a7, a8]\<rparr> 2
             \<lparr>shape = [3], dtype = d, data = [Num x, Num y, Num z]\<rparr>
           = Inr \<lparr>shape = s, dtype = DFloat, data = [a0, a1, a2, a3, a4, a5] @ row_of d x y z\<rparr>"
  by (simp_all add: set_row3_def np_broadcast_to_def as_dims_def np_astype_def upt_conv_Cons
        row_of_def del: convert_elem.simps)

lemma row3_explicit:
  "row3 [a0, a1, a2, a3, a4, a5, a6, a7, a8] 0 = [a0, a1, a2]"
  "row3 [a0, a1, a2, a3, a4, a5, a6, a7, a8] 1 = [a3, a4, a5]"
  "row3 [a0, a1, a2, a3, a4, a5, a6, a7, a8] 2 = [a6, a7, a8]"
  "row3 [a0, a1, a2, a3, a4, a5, a6, a7, a8] (Suc 0) = [a3, a4, a5]"
  by (simp_all add: row3_def)

lemma assemble_three:
  assumes "d0 \<noteq> DBool" "d1 \<noteq> DBool" "d2 \<noteq> DBool"
  shows "assemble_axes [vec3 d0 u0 u1 u2, vec3 d1 v0 v1 v2, vec3 d2 w0 w1 w2] ori nm
           = Inr (frame (row_of d0 u0 u1 u2 @ row_of d1 v0 v1 v2 @ row_of d2 w0 w1 w2))"
  using assms
  by (simp add: assemble_axes_def validate_array3_vec3 as_array_PArray set_row3_explicit
        np_zeros33_def replicate_9 frame_def row_of_explicit del: convert_elem.simps)

lemma assemble_two:
  assumes "d0 \<noteq> DBool" "d1 \<noteq> DBool"
  shows "assemble_axes [vec3 d0 u0 u1 u2, vec3 d1 v0 v1 v2] ori nm
           = Inr (frame (row_of d0 u0 u1 u2 @ row_of d1 v0 v1 v2 @
                    (if ori = Some ''right'' then np_cross (row_of d0 u0 u1 u2) (row_of d1 v0 v1 v2)
                     else np_cross (row_of d1 v0 v1 v2) (row_of d0 u0 u1 u2))))"
  using assms
  by (simp add: assemble_axes_def validate_array3_vec3 as_array_PArray set_row3_explicit
        np_zeros33_def replicate_9 frame_def row_of_explicit row3_explicit
        del: convert_elem.simps)

lemma assemble_bool:
  "d0 = DBool \<or> d1 = DBool \<or> (length rest = 1 \<and> (\<exists>w0 w1 w2. rest = [vec3 DBool w0 w1 w2])) \<Longrightarrow>
   is_type_error (assemble_axes (vec3 d0 u0 u1 u2 # vec3 d1 v0 v1 v2 # rest) ori nm)"
  by (cases "d0 = DBool"; cases "d1 = DBool")
     (auto simp: assemble_axes_def validate_array3_bool validate_array3_vec3 as_array_PArray
        set_row3_explicit np_zeros33_def replicate_9 row_of_explicit simp del: convert_elem.simps)

lemma map_convert_same [simp]: "map (convert_elem d d) xs = xs"
  by (induction xs) simp_all

lemma assemble_one:
  assumes "length xs = 9"
  shows "assemble_axes [PArray (frame xs)] ori nm = Inr (frame xs)"
  using assms
  by (simp add: assemble_axes_def frame_def validate_array_def va_defaults_def cast_to_ndarray_def
        va_check_type_def check_real_def check_shape_def allowed_shapes_def shape_is_allowed_def
        as_dims_def va_check_values_def np_astype_def as_array_def)

lemma validate_axes_steps:
  assumes "length axes = 1 \<or> length axes = 2 \<or> length axes = 3"
      and "ori = Some ''right'' \<or> ori = Some ''left''"
  shows "validate_axes axes nf orth ori nm
           = rbind (assemble_axes axes ori nm) (\<lambda>a. check_axes a nf orth ori nm)"
  using assms
  by (auto simp: validate_axes_def check_length_def check_contains_def)

lemma validate_axes_Inr_orientation:
  assumes "validate_axes [a, b] nf orth ori nm = Inr r"
  shows "ori = Some ''right'' \<or> ori = Some ''left''"
  using assms
  by (cases ori) (auto simp: validate_axes_def check_length_def check_contains_def split: if_splits)

subsection \<open>The checks after assembly\<close>

lemma check_axes_value_errors:
  "(\<exists>r. check_axes a nf orth ori nm = Inr r) \<or> is_value_error (check_axes a nf orth ori nm)"
  by (simp add: check_axes_def check_finite_def Let_def)

lemma check_axes_Inr:
  assumes "check_axes a nf orth ori nm = Inr r"
  shows "r = PArray (if nf then frame (normalized (row3 (data a) 0) @ normalized (row3 (data a) 1)
                                         @ normalized (row3 (data a) 2))
                     else a)"
proof -
  have fin: "check_finite a nm = Inr ()"
    using assms by (cases "check_finite a nm") (simp_all add: check_axes_def)
  note step = assms [unfolded check_axes_def fin rbind_Inr Let_def, folded normalized_def]
  show ?thesis
    using step by (simp add: frame_def split: if_splits)
qed

subsection \<open>Tolerances\<close>

lemma powr2_neg: "(2::real) powr of_int (- int n) = 1 / 2 ^ n"
  by (simp add: powr_minus_divide powr_realpow)

lemma round64_small:
  assumes "0 \<le> x" "x \<le> 1 / 2 ^ n" "n \<le> 1022"
  shows "\<exists>y. round64 x = Num y \<and> 0 \<le> y \<and> y \<le> 1 / 2 ^ n"
proof -
  have e: "(2::real) powr of_int (- int n) = 1 / 2 ^ n" by (rule powr2_neg)
  from round64_bounded [of x "- int n", unfolded e] assms show ?thesis by simp
qed

lemma tol_bound:
  assumes "\<bar>y\<bar> \<le> 2"
  shows "\<exists>t. elem_add f64_atol (elem_mul f64_rtol (elem_abs (Num y))) = Num t
             \<and> 0 \<le> t \<and> t \<le> 1 / 2 ^ 14"
proof -
  obtain A where A: "f64_atol = Num A" "0 \<le> A" "A \<le> 1 / 2 ^ 26"
    using round64_small [of "1 / 10 ^ 8" 26] by (auto simp: f64_atol_def)
  obtain R where R: "f64_rtol = Num R" "0 \<le> R" "R \<le> 1 / 2 ^ 16"
    using round64_small [of "1 / 10 ^ 5" 16] by (auto simp: f64_rtol_def)
  have "R * \<bar>y\<bar> \<le> 1 / 2 ^ 16 * 2"
    using R assms by (intro mult_mono) simp_all
  then have "R * \<bar>y\<bar> \<le> 1 / 2 ^ 15" by simp
  moreover have "0 \<le> R * \<bar>y\<bar>" using R by simp
  ultimately obtain p where p: "round64 (R * \<bar>y\<bar>) = Num p" "0 \<le> p" "p \<le> 1 / 2 ^ 15"
    using round64_small [of "R * \<bar>y\<bar>" 15] by auto
  have "A + p \<le> 1 / 2 ^ 14" using A p by simp
  moreover have "0 \<le> A + p" using A p by simp
  ultimately obtain t where t: "round64 (A + p) = Num t" "0 \<le> t" "t \<le> 1 / 2 ^ 14"
    using round64_small [of "A + p" 14] by auto
  have "elem_add f64_atol (elem_mul f64_rtol (elem_abs (Num y))) = Num t"
    by (simp add: A(1) R(1) p(1) t(1))
  with t show ?thesis by blast
qed

lemma isclose_refl: "isclose (Num x) (Num x)"
  by (simp add: isclose_def)

lemma isclose_D:
  assumes "isclose (Num c) (Num p)" "\<bar>c\<bar> \<le> 12" "\<bar>p\<bar> \<le> 2"
  shows "\<bar>c - p\<bar> \<le> 1 / 2 ^ 13"
proof (cases "c = p")
  case True
  then show ?thesis by simp
next
  case False
  obtain t where t: "elem_add f64_atol (elem_mul f64_rtol (elem_abs (Num p))) = Num t"
      "0 \<le> t" "t \<le> 1 / 2 ^ 14"
    using tol_bound [OF assms(3)] by blast
  have "\<bar>c + - p\<bar> \<le> 16" using assms(2,3) by simp
  then obtain z where z: "round64 (c + - p) = Num z" "\<bar>z - (c + - p)\<bar> \<le> 1 / 2 ^ 49"
    using round64_abs_err [of "c + - p"] by blast
  have "\<bar>z\<bar> \<le> t"
    using assms(1) False t z by (simp add: isclose_def elem_sub_def)
  then have "\<bar>c - p\<bar> \<le> 1 / 2 ^ 14 + 1 / 2 ^ 49" using z(2) t(3) by linarith
  then show ?thesis by simp
qed

lemma isclose_far:
  assumes "1 \<le> \<bar>c - p\<bar>" "\<bar>c\<bar> \<le> 12" "\<bar>p\<bar> \<le> 2"
  shows "\<not> isclose (Num c) (Num p)"
proof
  assume "isclose (Num c) (Num p)"
  from isclose_D [OF this assms(2,3)] assms(1) show False by simp
qed

lemma isclose_consts:
  "isclose (Num 0) (Num 0)" "isclose (Num 1) (Num 1)" "isclose (Num (- 1)) (Num (- 1))"
  "\<not> isclose (Num 0) (Num 1)" "\<not> isclose (Num 1) (Num 0)" "\<not> isclose (Num 2) (Num 0)"
  "\<not> isclose (Num (- 1)) (Num 0)" "\<not> isclose (Num 1) (Num (- 1))"
  "\<not> isclose (Num (- 1)) (Num 1)"
  using isclose_refl isclose_far [of 0 1] isclose_far [of 1 0] isclose_far [of 2 0]
    isclose_far [of "- 1" 0] isclose_far [of 1 "- 1"] isclose_far [of "- 1" 1]
  by simp_all

lemma isclose_inf: "\<bar>p\<bar> \<le> 2 \<Longrightarrow> \<not> isclose PosInf (Num p)"
  using tol_bound [of p] by (auto simp: isclose_def elem_sub_def)

subsection \<open>Frames of the standard basis\<close>

lemmas axes_eval = check_axes_def check_finite_def frame_def row3_explicit np_dot_def
  sum_elems_def np_norm_def np_cross_def allclose_def elem_sub_def isclose_consts
  row_of_explicit normalized_def

lemma axes_identity:
  "validate_axes [vec3 DInt 1 0 0, vec3 DInt 0 1 0, vec3 DInt 0 0 1] True True (Some ''right'') ''Axes''
     = Inr (PArray (frame [Num 1, Num 0, Num 0, Num 0, Num 1, Num 0, Num 0, Num 0, Num 1]))"
  by (simp add: validate_axes_steps assemble_three axes_eval)

lemma axes_left:
  "validate_axes [vec3 DInt 1 0 0, vec3 DInt 0 1 0] True True (Some ''left'') ''Axes''
     = Inr (PArray (frame [Num 1, Num 0, Num 0, Num 0, Num 1, Num 0, Num 0, Num 0, Num (- 1)]))"
  by (simp add: validate_axes_steps assemble_two axes_eval)

lemma axes_2_1:
  "validate_axes [vec3 DInt 2 0 0, vec3 DInt 0 1 0] True True (Some ''right'') ''Axes''
     = Inr (PArray (frame [Num 1, Num 0, Num 0, Num 0, Num 1, Num 0, Num 0, Num 0, Num 1]))"
  by (simp add: validate_axes_steps assemble_two axes_eval)

subsection \<open>The third axis of two vectors\<close>




end
